theory Spec2Isabelle
  imports Main "HOL-Library.Log_Nat"
begin

section \<open>Python values used by camRAT.py\<close>

subsection \<open>Exceptions\<close>

text \<open>
  Every exception the modelled code can meet carries its message; \<open>str(e)\<close> is that
  message. \<open>ScreenShotError\<close> stands for whatever the screen-capture library raises.
\<close>

datatype py_error =
    ValueError string
  | OverflowError string
  | RuntimeError string
  | ScreenShotError string

fun str_of_error :: "py_error \<Rightarrow> string" where
  "str_of_error (ValueError m) = m"
| "str_of_error (OverflowError m) = m"
| "str_of_error (RuntimeError m) = m"
| "str_of_error (ScreenShotError m) = m"

subsection \<open>Strings\<close>

text \<open>
  A string is the list of its bytes. \<open>str.lower()\<close> is modelled on the ASCII letters
  (bytes 65..90 move up by 32, which sets bit 5); every other byte is kept. \<open>str_in sub s\<close> is Python's
  \<open>sub in s\<close>: \<open>sub\<close> occurs in \<open>s\<close> as a contiguous run.
\<close>

definition lower_char :: "char \<Rightarrow> char" where
  "lower_char c =
     (if 65 \<le> (of_char c :: nat) \<and> (of_char c :: nat) \<le> 90
      then (case c of Char b0 b1 b2 b3 b4 b5 b6 b7 \<Rightarrow> Char b0 b1 b2 b3 b4 True b6 b7)
      else c)"

definition lower :: "string \<Rightarrow> string" where
  "lower s = map lower_char s"

fun starts_with :: "string \<Rightarrow> string \<Rightarrow> bool" where
  "starts_with [] s = True"
| "starts_with (c # cs) [] = False"
| "starts_with (c # cs) (d # ds) = (c = d \<and> starts_with cs ds)"

fun str_in :: "string \<Rightarrow> string \<Rightarrow> bool" where
  "str_in sub [] = (sub = [])"
| "str_in sub (d # ds) = (starts_with sub (d # ds) \<or> str_in sub ds)"

text \<open>Decimal rendering of an integer, as an f-string prints it.\<close>

definition digit_char :: "nat \<Rightarrow> char" where
  "digit_char n = ''0123456789'' ! n"

fun str_nat :: "nat \<Rightarrow> string" where
  "str_nat n = (if n < 10 then [digit_char n] else str_nat (n div 10) @ [digit_char (n mod 10)])"

definition str_int :: "int \<Rightarrow> string" where
  "str_int i = (if i < 0 then CHR ''-'' # str_nat (nat (- i)) else str_nat (nat i))"

subsection \<open>Floats\<close>

text \<open>
  A Python float is an IEEE-754 binary64 value. \<open>Finite q\<close> is the finite double of
  value \<open>q\<close>; the sign of zero is not represented (the modelled code never observes it:
  comparisons treat both zeros alike and \<open>int\<close> sends both to 0). Arithmetic computes
  the exact rational result and rounds it to the nearest double, ties to even
  (\<open>round_ne\<close>): 53 significant bits, smallest exponent \<open>-1074\<close>; a rounded magnitude of
  \<open>2 ^ 1024\<close> or more is an overflow.
\<close>

datatype pyfloat = Finite rat | PosInf | NegInf | NaN

definition floor_log2 :: "rat \<Rightarrow> int" where
  "floor_log2 a = (case quotient_of a of (p, q) \<Rightarrow>
      (let k = bitlen p - bitlen q in if 2 powi k \<le> a then k else k - 1))"

definition round_half_even :: "rat \<Rightarrow> int" where
  "round_half_even x = (let f = \<lfloor>x\<rfloor>; d = x - of_int f in
      if d < 1 / 2 then f else if 1 / 2 < d then f + 1 else if even f then f else f + 1)"

definition round_ne :: "rat \<Rightarrow> rat" where
  "round_ne q = (if q = 0 then 0 else
      (let e = max (floor_log2 \<bar>q\<bar> - 52) (- 1074)
       in of_int (round_half_even (q / 2 powi e)) * 2 powi e))"

definition fl_round :: "rat \<Rightarrow> pyfloat" where
  "fl_round q = (let r = round_ne q in
      if 2 ^ 1024 \<le> r then PosInf else if r \<le> - (2 ^ 1024) then NegInf else Finite r)"

text \<open>
  \<open>float(n)\<close> for an int, also the implicit conversion of an int operand in
  \<open>int * float\<close> and \<open>int + float\<close>: correctly rounded, OverflowError when out of range.
\<close>

definition float_of_int :: "int \<Rightarrow> py_error + pyfloat" where
  "float_of_int n = (case fl_round (of_int n) of
      Finite r \<Rightarrow> Inr (Finite r)
    | _ \<Rightarrow> Inl (OverflowError ''int too large to convert to float''))"

text \<open>\<open>int(x)\<close> for a float: truncation toward zero; infinities and NaN raise.\<close>

definition trunc_rat :: "rat \<Rightarrow> int" where
  "trunc_rat q = (if 0 \<le> q then \<lfloor>q\<rfloor> else \<lceil>q\<rceil>)"

fun int_of_float :: "pyfloat \<Rightarrow> py_error + int" where
  "int_of_float (Finite q) = Inr (trunc_rat q)"
| "int_of_float PosInf = Inl (OverflowError ''cannot convert float infinity to integer'')"
| "int_of_float NegInf = Inl (OverflowError ''cannot convert float infinity to integer'')"
| "int_of_float NaN = Inl (ValueError ''cannot convert float NaN to integer'')"

fun fmul :: "pyfloat \<Rightarrow> pyfloat \<Rightarrow> pyfloat" where
  "fmul NaN y = NaN"
| "fmul x NaN = NaN"
| "fmul (Finite a) (Finite b) = fl_round (a * b)"
| "fmul (Finite a) PosInf = (if a = 0 then NaN else if 0 < a then PosInf else NegInf)"
| "fmul (Finite a) NegInf = (if a = 0 then NaN else if 0 < a then NegInf else PosInf)"
| "fmul PosInf (Finite b) = (if b = 0 then NaN else if 0 < b then PosInf else NegInf)"
| "fmul NegInf (Finite b) = (if b = 0 then NaN else if 0 < b then NegInf else PosInf)"
| "fmul PosInf PosInf = PosInf"
| "fmul PosInf NegInf = NegInf"
| "fmul NegInf PosInf = NegInf"
| "fmul NegInf NegInf = PosInf"

fun fadd :: "pyfloat \<Rightarrow> pyfloat \<Rightarrow> pyfloat" where
  "fadd NaN y = NaN"
| "fadd x NaN = NaN"
| "fadd (Finite a) (Finite b) = fl_round (a + b)"
| "fadd (Finite a) PosInf = PosInf"
| "fadd (Finite a) NegInf = NegInf"
| "fadd PosInf (Finite b) = PosInf"
| "fadd NegInf (Finite b) = NegInf"
| "fadd PosInf PosInf = PosInf"
| "fadd PosInf NegInf = NaN"
| "fadd NegInf PosInf = NaN"
| "fadd NegInf NegInf = NegInf"

text \<open>\<open>a < b\<close> on floats: false whenever a NaN is involved.\<close>

fun flt :: "pyfloat \<Rightarrow> pyfloat \<Rightarrow> bool" where
  "flt NaN y = False"
| "flt x NaN = False"
| "flt (Finite a) (Finite b) = (a < b)"
| "flt (Finite a) PosInf = True"
| "flt (Finite a) NegInf = False"
| "flt PosInf y = False"
| "flt NegInf NegInf = False"
| "flt NegInf y = True"

text \<open>
  The builtins \<open>min(a, b)\<close> and \<open>max(a, b)\<close> keep the first argument unless the second
  is strictly smaller (greater).
\<close>

definition py_min :: "pyfloat \<Rightarrow> pyfloat \<Rightarrow> pyfloat" where
  "py_min a b = (if flt b a then b else a)"

definition py_max :: "pyfloat \<Rightarrow> pyfloat \<Rightarrow> pyfloat" where
  "py_max a b = (if flt a b then b else a)"


section \<open>Configuration and runtime state\<close>

text \<open>
  The module-level constants of camRAT.py. They are parameters of the model, so that
  every statement holds for any setting; \<open>default_config\<close> holds the values the
  source assigns. A float literal denotes the double nearest to it.
\<close>

type_synonym abs_roi = "int \<times> int \<times> int \<times> int"
type_synonym rel_roi = "pyfloat \<times> pyfloat \<times> pyfloat \<times> pyfloat"

record config =
  JPEG_QUALITY :: int
  WINDOW_TITLE :: string
  ROI_MODE :: string
  ABS_ROI :: abs_roi
  REL_ROI :: rel_roi
  ROI_CLAMP :: int

definition float_literal :: "rat \<Rightarrow> pyfloat" where
  "float_literal q = Finite (round_ne q)"

definition default_config :: config where
  "default_config = \<lparr>
     JPEG_QUALITY = 70,
     WINDOW_TITLE = ''DMV-Viewer'',
     ROI_MODE = ''relative'',
     ABS_ROI = (1454, 540, 460, 377),
     REL_ROI = (float_literal (748713 / 1000000), float_literal (518234 / 1000000),
                float_literal (985582 / 1000000), float_literal (880038 / 1000000)),
     ROI_CLAMP = 0 \<rparr>"

text \<open>The three runtime-override globals; \<open>None\<close> is Python's \<open>None\<close>.\<close>

record runtime =
  ROI_RUNTIME_MODE :: "string option"
  ROI_RUNTIME_ABS :: "abs_roi option"
  ROI_RUNTIME_REL :: "rel_roi option"

definition initial_runtime :: runtime where
  "initial_runtime = \<lparr> ROI_RUNTIME_MODE = None, ROI_RUNTIME_ABS = None, ROI_RUNTIME_REL = None \<rparr>"

section \<open>Window and ROI helpers\<close>

text \<open>
  A window object of the window library, with the attributes the code reads. The dict
  returned by \<open>find_window_bbox\<close> is the record \<open>bbox\<close>; the dict handed to the
  screen grabber is the record \<open>roi\<close>.
\<close>

record window =
  win_title :: string
  win_isMinimized :: bool
  win_left :: int
  win_top :: int
  win_right :: int
  win_bottom :: int

record bbox =
  bbox_title :: string
  bbox_top :: int
  bbox_left :: int
  bbox_width :: int
  bbox_height :: int

record roi =
  roi_left :: int
  roi_top :: int
  roi_width :: int
  roi_height :: int

text \<open>
  \<open>find_window_bbox\<close>. The call \<open>gw.getWindowsWithTitle\<close> belongs to the window
  library and is a parameter: it maps the title to the windows the library enumerates
  for it, in enumeration order.
\<close>

definition find_window_bbox :: "config \<Rightarrow> (string \<Rightarrow> window list) \<Rightarrow> py_error + bbox" where
  "find_window_bbox cfg getWindowsWithTitle =
     (let wins = filter (\<lambda>w. str_in (WINDOW_TITLE cfg) (win_title w))
                   (getWindowsWithTitle (WINDOW_TITLE cfg))
      in case wins of
           [] \<Rightarrow> Inl (ValueError (''Window '' @ [CHR 39] @ WINDOW_TITLE cfg @ [CHR 39] @ '' not found''))
         | w # _ \<Rightarrow>
             if win_isMinimized w
             then Inl (ValueError (''Window '' @ [CHR 39] @ win_title w @ [CHR 39] @ '' is minimized''))
             else Inr \<lparr> bbox_title = win_title w, bbox_top = win_top w, bbox_left = win_left w,
                        bbox_width = win_right w - win_left w,
                        bbox_height = win_bottom w - win_top w \<rparr>)"

text \<open>\<open>_roi_from_absolute\<close>: the spec's entries are ints, on which \<open>int(v)\<close> is the identity.\<close>

definition roi_from_absolute :: "bbox \<Rightarrow> abs_roi \<Rightarrow> roi" where
  "roi_from_absolute b a =
     (case a of (x0, y0, w0, h0) \<Rightarrow>
        (let L = bbox_left b; T = bbox_top b; W = bbox_width b; H = bbox_height b;
             x = max 0 x0; y = max 0 y0;
             w = max 1 (min w0 (W - x));
             h = max 1 (min h0 (H - y))
         in \<lparr> roi_left = L + x, roi_top = T + y, roi_width = w, roi_height = h \<rparr>))"

text \<open>
  \<open>_roi_from_relative\<close>. \<open>clamp01 v\<close> is \<open>max(0.0, min(1.0, v))\<close>, and
  \<open>edge L W f\<close> is \<open>int(L + W * f)\<close> for ints \<open>L\<close>, \<open>W\<close> and a float \<open>f\<close>:
  \<open>W\<close> is converted and multiplied first, then \<open>L\<close> is converted and added, then the
  sum is truncated. The four edges are computed in the source's order, and the first
  exception ends the call.
\<close>

definition clamp01 :: "pyfloat \<Rightarrow> pyfloat" where
  "clamp01 v = py_max (Finite 0) (py_min (Finite 1) v)"

definition edge :: "int \<Rightarrow> int \<Rightarrow> pyfloat \<Rightarrow> py_error + int" where
  "edge L W f =
     (case float_of_int W of
        Inl e \<Rightarrow> Inl e
      | Inr Wf \<Rightarrow>
          (case float_of_int L of
             Inl e \<Rightarrow> Inl e
           | Inr Lf \<Rightarrow> int_of_float (fadd Lf (fmul Wf f))))"

definition roi_from_relative :: "bbox \<Rightarrow> rel_roi \<Rightarrow> py_error + roi" where
  "roi_from_relative bb rr =
     (case rr of (l0, t0, r0, b0) \<Rightarrow>
        (let L = bbox_left bb; T = bbox_top bb; W = bbox_width bb; H = bbox_height bb;
             l = clamp01 l0; t = clamp01 t0; r = clamp01 r0; b = clamp01 b0
         in case edge L W (py_min l r) of Inl e \<Rightarrow> Inl e | Inr x0 \<Rightarrow>
            (case edge T H (py_min t b) of Inl e \<Rightarrow> Inl e | Inr y0 \<Rightarrow>
            (case edge L W (py_max l r) of Inl e \<Rightarrow> Inl e | Inr x1 \<Rightarrow>
            (case edge T H (py_max t b) of Inl e \<Rightarrow> Inl e | Inr y1 \<Rightarrow>
               Inr \<lparr> roi_left = x0, roi_top = y0,
                     roi_width = max 1 (x1 - x0), roi_height = max 1 (y1 - y0) \<rparr>)))))"

text \<open>
  \<open>_apply_roi_to_bbox\<close>. \<open>effective_mode\<close> is the expression
  \<open>(ROI_RUNTIME_MODE or ROI_MODE or "relative").lower()\<close>: \<open>None\<close> and the empty
  string are falsy. A 4-tuple is always truthy, so an override is used exactly when it
  is not \<open>None\<close>. \<open>border_clamp\<close> is the final \<open>if ROI_CLAMP > 0\<close> block.
\<close>

definition effective_mode :: "config \<Rightarrow> runtime \<Rightarrow> string" where
  "effective_mode cfg st =
     lower (case ROI_RUNTIME_MODE st of
              Some m \<Rightarrow> if m \<noteq> [] then m else if ROI_MODE cfg \<noteq> [] then ROI_MODE cfg else ''relative''
            | None \<Rightarrow> if ROI_MODE cfg \<noteq> [] then ROI_MODE cfg else ''relative'')"

definition border_clamp :: "int \<Rightarrow> roi \<Rightarrow> roi" where
  "border_clamp c r =
     (if 0 < c
      then \<lparr> roi_left = roi_left r + c, roi_top = roi_top r + c,
             roi_width = max 1 (roi_width r - 2 * c),
             roi_height = max 1 (roi_height r - 2 * c) \<rparr>
      else r)"

definition apply_roi_to_bbox :: "config \<Rightarrow> runtime \<Rightarrow> bbox \<Rightarrow> py_error + roi" where
  "apply_roi_to_bbox cfg st b =
     (case (if effective_mode cfg st = ''absolute''
            then Inr (roi_from_absolute b
                       (case ROI_RUNTIME_ABS st of Some a \<Rightarrow> a | None \<Rightarrow> ABS_ROI cfg))
            else roi_from_relative b
                       (case ROI_RUNTIME_REL st of Some r \<Rightarrow> r | None \<Rightarrow> REL_ROI cfg))
      of Inl e \<Rightarrow> Inl e
       | Inr r \<Rightarrow> Inr (border_clamp (ROI_CLAMP cfg) r))"


section \<open>Frame grabber, encoder and snapshot view\<close>

text \<open>
  Pixels are not modelled: an image is either what the capture library delivered
  (\<open>Captured\<close>), the array \<open>np.zeros((h, w, c))\<close>, or the result of a \<open>cv2.putText\<close> call
  on an image (text, origin, font, scale as a fraction, colour, thickness).
  \<open>image_shape\<close> is \<open>img.shape\<close>, given the shape of captured pixels.
\<close>

datatype 'p image =
    Captured 'p
  | Zeros nat nat nat
  | PutText "'p image" string "int \<times> int" string rat "nat \<times> nat \<times> nat" nat

fun image_shape :: "('p \<Rightarrow> nat \<times> nat \<times> nat) \<Rightarrow> 'p image \<Rightarrow> nat \<times> nat \<times> nat" where
  "image_shape sh (Captured p) = sh p"
| "image_shape sh (Zeros h w c) = (h, w, c)"
| "image_shape sh (PutText i t org font scale colour thick) = image_shape sh i"

text \<open>
  \<open>grab_frame\<close>. \<open>sct_grab\<close> is \<open>sct.grab\<close> and \<open>to_bgr\<close> the conversion
  \<open>cv2.cvtColor(np.array(shot), cv2.COLOR_BGRA2BGR)\<close>; both are library calls that may
  raise. \<open>grab_frame_try\<close> is the body of the \<open>try\<close>, \<open>error_frame\<close> the image built
  in the \<open>except\<close> branch.
\<close>

definition grab_frame_try ::
  "config \<Rightarrow> (string \<Rightarrow> window list) \<Rightarrow> (roi \<Rightarrow> py_error + 's) \<Rightarrow> ('s \<Rightarrow> py_error + 'p) \<Rightarrow>
   runtime \<Rightarrow> py_error + 'p" where
  "grab_frame_try cfg gw sct_grab to_bgr st =
     (case find_window_bbox cfg gw of Inl e \<Rightarrow> Inl e | Inr bbox_win \<Rightarrow>
     (case apply_roi_to_bbox cfg st bbox_win of Inl e \<Rightarrow> Inl e | Inr bbox_roi \<Rightarrow>
     (case sct_grab bbox_roi of Inl e \<Rightarrow> Inl e | Inr shot \<Rightarrow>
        to_bgr shot)))"

definition error_frame :: "py_error \<Rightarrow> 'p image" where
  "error_frame e =
     PutText (Zeros 480 640 3) (str_of_error e) (20, 240) ''FONT_HERSHEY_SIMPLEX'' (7 / 10)
       (0, 0, 255) 2"

definition grab_frame ::
  "config \<Rightarrow> (string \<Rightarrow> window list) \<Rightarrow> (roi \<Rightarrow> py_error + 's) \<Rightarrow> ('s \<Rightarrow> py_error + 'p) \<Rightarrow>
   runtime \<Rightarrow> 'p image \<times> py_error option" where
  "grab_frame cfg gw sct_grab to_bgr st =
     (case grab_frame_try cfg gw sct_grab to_bgr st of
        Inr img \<Rightarrow> (Captured img, None)
      | Inl e \<Rightarrow> (error_frame e, Some e))"

text \<open>
  \<open>encode_jpeg\<close>; \<open>imencode img q\<close> is \<open>cv2.imencode(".jpg", img, [IMWRITE_JPEG_QUALITY, q])\<close>
  and returns the success flag and the bytes.
\<close>

definition encode_jpeg :: "config \<Rightarrow> ('p image \<Rightarrow> int \<Rightarrow> bool \<times> 'b) \<Rightarrow> 'p image \<Rightarrow> py_error + 'b" where
  "encode_jpeg cfg imencode img =
     (case imencode img (JPEG_QUALITY cfg) of (ok, jpg) \<Rightarrow>
        if \<not> ok then Inl (RuntimeError ''JPEG encode failed'') else Inr jpg)"

text \<open>
  An HTTP response: status, headers, body. \<open>make_response\<close> gives status 200 and the
  framework's default content type; a view that raises yields no response of its own
  (\<open>Inl\<close>; the framework answers 500).
  In \<open>snapshot\<close> the screen-capture session \<open>mss.mss()\<close> is taken as open:
  \<open>sct_grab\<close> is its \<open>grab\<close> method.
\<close>

record 'b response =
  status :: nat
  headers :: "string \<rightharpoonup> string"
  body :: 'b

definition make_response :: "'b \<Rightarrow> 'b response" where
  "make_response b =
     \<lparr> status = 200, headers = [''Content-Type'' \<mapsto> ''text/html; charset=utf-8''], body = b \<rparr>"

definition snapshot ::
  "config \<Rightarrow> (string \<Rightarrow> window list) \<Rightarrow> (roi \<Rightarrow> py_error + 's) \<Rightarrow> ('s \<Rightarrow> py_error + 'p) \<Rightarrow>
   ('p image \<Rightarrow> int \<Rightarrow> bool \<times> 'b) \<Rightarrow> runtime \<Rightarrow> py_error + 'b response" where
  "snapshot cfg gw sct_grab to_bgr imencode st =
     (case grab_frame cfg gw sct_grab to_bgr st of (img, _) \<Rightarrow>
        (case encode_jpeg cfg imencode img of
           Inl e \<Rightarrow> Inl e
         | Inr jpg \<Rightarrow>
             (let r = make_response jpg
              in Inr (r\<lparr> headers := (headers r)
                     (''Content-Type'' \<mapsto> ''image/jpeg'',
                      ''Cache-Control'' \<mapsto> ''no-store, no-cache, must-revalidate, max-age=0'',
                      ''Pragma'' \<mapsto> ''no-cache'',
                      ''Expires'' \<mapsto> ''0'',
                      ''Content-Disposition'' \<mapsto> ''inline; filename=snapshot.jpg'') \<rparr>))))"

section \<open>Runtime ROI setter and health check\<close>

text \<open>
  \<open>request.args\<close> maps a parameter name to its string value. \<open>args_get args k d\<close> is
  \<open>request.args.get(k, d)\<close> with an int default. The builtin \<open>float\<close> on a string is a
  parameter (\<open>float_of_str\<close>, raising on a malformed string), as is the format
  \<open>{v:.6f}\<close> of a float (\<open>format_6f\<close>).
\<close>

datatype arg = ArgStr string | ArgInt int

definition args_get :: "(string \<rightharpoonup> string) \<Rightarrow> string \<Rightarrow> int \<Rightarrow> arg" where
  "args_get args k d = (case args k of Some v \<Rightarrow> ArgStr v | None \<Rightarrow> ArgInt d)"

fun py_float :: "(string \<Rightarrow> py_error + pyfloat) \<Rightarrow> arg \<Rightarrow> py_error + pyfloat" where
  "py_float float_of_str (ArgStr v) = float_of_str v"
| "py_float float_of_str (ArgInt n) = float_of_int n"

definition int_float :: "(string \<Rightarrow> py_error + pyfloat) \<Rightarrow> arg \<Rightarrow> py_error + int" where
  "int_float float_of_str a =
     (case py_float float_of_str a of Inl e \<Rightarrow> Inl e | Inr f \<Rightarrow> int_of_float f)"

record reply =
  ok :: bool
  message :: string

text \<open>
  \<open>set_roi\<close> returns the view's result (the JSON object and the status, or the exception
  that escapes the view) and the globals after the request. The mode is
  \<open>(request.args.get("mode") or "").lower()\<close>: a missing and an empty parameter both
  give the empty string.
\<close>

definition set_roi ::
  "(string \<Rightarrow> py_error + pyfloat) \<Rightarrow> (pyfloat \<Rightarrow> string) \<Rightarrow> (string \<rightharpoonup> string) \<Rightarrow> runtime \<Rightarrow>
   (py_error + reply \<times> nat) \<times> runtime" where
  "set_roi float_of_str format_6f args st =
     (let mode = lower (case args ''mode'' of Some m \<Rightarrow> m | None \<Rightarrow> [])
      in if mode = ''absolute'' then
           (case int_float float_of_str (args_get args ''x'' 0) of Inl e \<Rightarrow> (Inl e, st) | Inr x \<Rightarrow>
           (case int_float float_of_str (args_get args ''y'' 0) of Inl e \<Rightarrow> (Inl e, st) | Inr y \<Rightarrow>
           (case int_float float_of_str (args_get args ''w'' 1) of Inl e \<Rightarrow> (Inl e, st) | Inr w \<Rightarrow>
           (case int_float float_of_str (args_get args ''h'' 1) of Inl e \<Rightarrow> (Inl e, st) | Inr h \<Rightarrow>
              (Inr (\<lparr> ok = True,
                      message = ''Applied ABS_ROI=('' @ str_int x @ '','' @ str_int y @ '','' @
                                str_int w @ '','' @ str_int h @ '')'' \<rparr>, 200),
               \<lparr> ROI_RUNTIME_MODE = Some ''absolute'',
                 ROI_RUNTIME_ABS = Some (x, y, w, h),
                 ROI_RUNTIME_REL = None \<rparr>)))))
         else if mode = ''relative'' then
           (case py_float float_of_str (args_get args ''l'' 0) of Inl e \<Rightarrow> (Inl e, st) | Inr l \<Rightarrow>
           (case py_float float_of_str (args_get args ''t'' 0) of Inl e \<Rightarrow> (Inl e, st) | Inr t \<Rightarrow>
           (case py_float float_of_str (args_get args ''r'' 1) of Inl e \<Rightarrow> (Inl e, st) | Inr r \<Rightarrow>
           (case py_float float_of_str (args_get args ''b'' 1) of Inl e \<Rightarrow> (Inl e, st) | Inr b \<Rightarrow>
              (Inr (\<lparr> ok = True,
                      message = ''Applied REL_ROI=('' @ format_6f l @ '','' @ format_6f t @ '','' @
                                format_6f r @ '','' @ format_6f b @ '')'' \<rparr>, 200),
               \<lparr> ROI_RUNTIME_MODE = Some ''relative'',
                 ROI_RUNTIME_ABS = None,
                 ROI_RUNTIME_REL = Some (l, t, r, b) \<rparr>)))))
         else (Inr (\<lparr> ok = False, message = ''Specify mode=absolute or mode=relative'' \<rparr>, 400), st))"

text \<open>A run of \<open>/set_roi\<close> requests, each served to completion before the next.\<close>

fun set_roi_seq ::
  "(string \<Rightarrow> py_error + pyfloat) \<Rightarrow> (pyfloat \<Rightarrow> string) \<Rightarrow> (string \<rightharpoonup> string) list \<Rightarrow> runtime \<Rightarrow>
   runtime" where
  "set_roi_seq float_of_str format_6f [] st = st"
| "set_roi_seq float_of_str format_6f (a # as) st =
     set_roi_seq float_of_str format_6f as (snd (set_roi float_of_str format_6f a st))"

text \<open>
  \<open>/health\<close>: the JSON object of the \<open>try\<close> branch (\<open>HealthOk\<close>: window, window_bbox as
  left, top, width, height, roi_bbox, mode, runtime_abs, runtime_rel) or of the \<open>except\<close>
  branch (\<open>HealthError\<close>: error, window_title); the status is 200 in both.
\<close>

datatype health_body =
    HealthOk string "int \<times> int \<times> int \<times> int" roi string "abs_roi option" "rel_roi option"
  | HealthError string string

definition health :: "config \<Rightarrow> (string \<Rightarrow> window list) \<Rightarrow> runtime \<Rightarrow> health_body \<times> nat" where
  "health cfg gw st =
     (case (case find_window_bbox cfg gw of Inl e \<Rightarrow> Inl e | Inr bbox_win \<Rightarrow>
            (case apply_roi_to_bbox cfg st bbox_win of Inl e \<Rightarrow> Inl e | Inr bbox_roi \<Rightarrow>
               Inr (HealthOk (bbox_title bbox_win)
                      (bbox_left bbox_win, bbox_top bbox_win, bbox_width bbox_win, bbox_height bbox_win)
                      bbox_roi
                      (case ROI_RUNTIME_MODE st of
                         Some m \<Rightarrow> if m \<noteq> [] then m else ROI_MODE cfg
                       | None \<Rightarrow> ROI_MODE cfg)
                      (ROI_RUNTIME_ABS st) (ROI_RUNTIME_REL st))))
      of Inr h \<Rightarrow> (h, 200)
       | Inl e \<Rightarrow> (HealthError (str_of_error e) (WINDOW_TITLE cfg), 200))"

section \<open>Concrete settings used in examples\<close>

text \<open>
  The configuration and the window of the border-clamp example: an absolute ROI
  \<open>(0, 0, 10, 10)\<close> on a 10 by 10 window at the screen origin, with a border clamp
  of \<open>c\<close> pixels.
\<close>

definition clamp_demo_config :: "int \<Rightarrow> config" where
  "clamp_demo_config c = default_config \<lparr> ROI_MODE := ''absolute'', ABS_ROI := (0, 0, 10, 10), ROI_CLAMP := c \<rparr>"

definition clamp_demo_bbox :: bbox where
  "clamp_demo_bbox = \<lparr> bbox_title = ''DMV-Viewer'', bbox_top = 0, bbox_left = 0, bbox_width = 10, bbox_height = 10 \<rparr>"


text \<open>
  Stand-ins for the library functions in examples: a \<open>float\<close> parser and a \<open>.6f\<close>
  formatter that know a handful of strings and values, a desktop with no window, a
  desktop with two matching windows of which the first is minimized, a screen grabber
  that always raises, and an encoder that always succeeds.
\<close>

definition demo_float_of_str :: "string \<Rightarrow> py_error + pyfloat" where
  "demo_float_of_str s =
     (if s = ''0'' then Inr (Finite 0)
      else if s = ''0.5'' then Inr (Finite (1 / 2))
      else if s = ''1.0'' then Inr (Finite 1)
      else if s = ''10'' then Inr (Finite 10)
      else if s = ''20'' then Inr (Finite 20)
      else if s = ''300.7'' then Inr (float_literal (3007 / 10))
      else if s = ''nan'' then Inr NaN
      else Inl (ValueError (''could not convert string to float: '' @ s)))"

definition demo_format_6f :: "pyfloat \<Rightarrow> string" where
  "demo_format_6f v =
     (if v = Finite 0 then ''0.000000''
      else if v = Finite (1 / 2) then ''0.500000''
      else if v = Finite 1 then ''1.000000''
      else if v = NaN then ''nan''
      else ''...'')"

definition no_windows :: "string \<Rightarrow> window list" where
  "no_windows t = []"

definition two_windows :: "string \<Rightarrow> window list" where
  "two_windows t =
     [\<lparr> win_title = ''DMV-Viewer'', win_isMinimized = True,
        win_left = - 32000, win_top = - 32000, win_right = - 31840, win_bottom = - 31972 \<rparr>,
      \<lparr> win_title = ''DMV-Viewer (2)'', win_isMinimized = False,
        win_left = 100, win_top = 50, win_right = 900, win_bottom = 650 \<rparr>]"

definition failing_grab :: "roi \<Rightarrow> py_error + unit" where
  "failing_grab r = Inl (ScreenShotError ''grab failed'')"

definition unit_to_bgr :: "unit \<Rightarrow> py_error + unit" where
  "unit_to_bgr s = Inr s"

definition demo_imencode :: "unit image \<Rightarrow> int \<Rightarrow> bool \<times> string" where
  "demo_imencode img q = (True, ''JPEG'')"


text \<open>
  The mode as the specification words it: the runtime-override mode when set, otherwise
  the compiled default mode, lowercased. (The source adds a last fallback
  \<open>"relative"\<close> for an empty default.)
\<close>

definition spec_mode :: "config \<Rightarrow> runtime \<Rightarrow> string" where
  "spec_mode cfg st =
     lower (case ROI_RUNTIME_MODE st of
              Some m \<Rightarrow> if m \<noteq> [] then m else ROI_MODE cfg
            | None \<Rightarrow> ROI_MODE cfg)"


text \<open>
  The value of \<open>max(0.0, min(1.0, v))\<close> in closed form: a finite \<open>v\<close> is clamped into
  \<open>[0, 1]\<close>; for \<open>+inf\<close> and for NaN the inner \<open>min\<close> keeps 1.0; for \<open>-inf\<close> the outer
  \<open>max\<close> keeps 0.0.
\<close>

definition clamped_fraction :: "pyfloat \<Rightarrow> rat" where
  "clamped_fraction v =
     (case v of Finite q \<Rightarrow> max 0 (min 1 q) | PosInf \<Rightarrow> 1 | NegInf \<Rightarrow> 0 | NaN \<Rightarrow> 1)"

text \<open>
  One edge of the relative rectangle in closed form: the window extent \<open>W\<close> times the
  fraction \<open>f\<close>, rounded to a double; added to the window origin \<open>L\<close>, rounded again;
  then truncated toward zero.
\<close>

definition edge_closed_form :: "int \<Rightarrow> int \<Rightarrow> rat \<Rightarrow> int" where
  "edge_closed_form L W f = trunc_rat (round_ne (of_int L + round_ne (of_int W * f)))"

text \<open>
  A desktop with one matching, visible window; the configuration and the window of the
  relative example (fractions \<open>(0.5, 0.5, 1.0, 1.0)\<close> on an 800 by 600 window at
  \<open>(100, 50)\<close>); and a 3 by 3 window at the origin.
\<close>

definition one_window :: "string \<Rightarrow> window list" where
  "one_window t =
     [\<lparr> win_title = ''DMV-Viewer'', win_isMinimized = False,
        win_left = 100, win_top = 50, win_right = 900, win_bottom = 650 \<rparr>]"

definition rel_demo_config :: config where
  "rel_demo_config = default_config \<lparr> REL_ROI := (Finite (1 / 2), Finite (1 / 2), Finite 1, Finite 1) \<rparr>"

definition rel_demo_bbox :: bbox where
  "rel_demo_bbox = \<lparr> bbox_title = ''DMV-Viewer'', bbox_top = 50, bbox_left = 100, bbox_width = 800, bbox_height = 600 \<rparr>"

definition small_bbox :: bbox where
  "small_bbox = \<lparr> bbox_title = ''DMV-Viewer'', bbox_top = 0, bbox_left = 0, bbox_width = 3, bbox_height = 3 \<rparr>"

text \<open>
  A runtime state whose mode is an unknown string, and the two \<open>/set_roi\<close> requests of
  the examples with the states they lead to.
\<close>

definition bogus_runtime :: runtime where
  "bogus_runtime = \<lparr> ROI_RUNTIME_MODE = Some ''Bogus'', ROI_RUNTIME_ABS = None, ROI_RUNTIME_REL = None \<rparr>"

definition abs_demo_args :: "string \<rightharpoonup> string" where
  "abs_demo_args = [''mode'' \<mapsto> ''absolute'', ''x'' \<mapsto> ''10'', ''y'' \<mapsto> ''20'']"

definition abs_demo_runtime :: runtime where
  "abs_demo_runtime =
     \<lparr> ROI_RUNTIME_MODE = Some ''absolute'', ROI_RUNTIME_ABS = Some (10, 20, 1, 1),
       ROI_RUNTIME_REL = None \<rparr>"

definition rel_demo_args :: "string \<rightharpoonup> string" where
  "rel_demo_args = [''mode'' \<mapsto> ''Relative'', ''l'' \<mapsto> ''0.5'', ''t'' \<mapsto> ''0.5'']"

definition rel_demo_runtime :: runtime where
  "rel_demo_runtime =
     \<lparr> ROI_RUNTIME_MODE = Some ''relative'', ROI_RUNTIME_ABS = None,
       ROI_RUNTIME_REL = Some (Finite (1 / 2), Finite (1 / 2), Finite 1, Finite 1) \<rparr>"

text \<open>
  A window wider than the largest double: converting its width with \<open>W * f\<close> raises
  OverflowError inside \<open>_roi_from_relative\<close>.
\<close>

definition huge :: int where
  "huge = 2 ^ 1024"

definition huge_window :: "string \<Rightarrow> window list" where
  "huge_window t =
     [\<lparr> win_title = ''DMV-Viewer'', win_isMinimized = False,
        win_left = 0, win_top = 0, win_right = huge, win_bottom = 600 \<rparr>]"

section \<open>Rounding\<close>

lemma floor_log2_le:
  assumes "0 < a"
  shows "2 powi (floor_log2 a) \<le> a"
proof -
  obtain p q where pq: "quotient_of a = (p, q)" by (cases "quotient_of a")
  have qpos: "0 < q" using quotient_of_denom_pos [OF pq] .
  have a_eq: "a = of_int p / of_int q" using quotient_of_div [OF pq] .
  have ppos: "0 < p"
  proof (rule ccontr)
    assume "\<not> 0 < p"
    then have "of_int p / (of_int q :: rat) \<le> 0"
      using qpos by (simp add: divide_nonpos_pos)
    with assms a_eq show False by simp
  qed
  let ?k = "bitlen p - bitlen q"
  show ?thesis
  proof (cases "2 powi ?k \<le> a")
    case True
    then show ?thesis by (simp add: floor_log2_def pq)
  next
    case False
    have bp: "1 \<le> bitlen p" using ppos by (simp add: bitlen_alt_def)
    have bq: "0 \<le> bitlen q" by (rule bitlen_nonneg)
    have lo: "(2::int) ^ nat (bitlen p - 1) \<le> p" using bitlen_bounds [OF ppos] by simp
    have hi: "q < 2 ^ nat (bitlen q)" using bitlen_bounds [OF qpos] by simp
    have lo': "(2::rat) ^ nat (bitlen p - 1) \<le> of_int p"
    proof -
      have "(of_int ((2::int) ^ nat (bitlen p - 1)) :: rat) \<le> of_int p"
        using lo by (simp only: of_int_le_iff)
      then show ?thesis by simp
    qed
    have hi': "(of_int q :: rat) \<le> 2 ^ nat (bitlen q)"
    proof -
      have "(of_int q :: rat) \<le> of_int ((2::int) ^ nat (bitlen q))"
        using hi by (simp only: of_int_le_iff) 
      then show ?thesis by simp
    qed
    have "(2::rat) powi (?k - 1) = 2 powi (bitlen p - 1) / 2 powi (bitlen q)"
    proof -
      have "?k - 1 = (bitlen p - 1) - bitlen q" by simp
      then show ?thesis by (simp only: power_int_diff [of "2::rat", simplified])
    qed
    also have "\<dots> = 2 ^ nat (bitlen p - 1) / 2 ^ nat (bitlen q)"
      using bp bq by (simp add: power_int_nonneg_exp)
    also have "\<dots> \<le> of_int p / of_int q"
      using lo' hi' qpos ppos by (intro frac_le) simp_all
    finally have "(2::rat) powi (?k - 1) \<le> a" using a_eq by simp
    with False show ?thesis by (simp add: floor_log2_def pq)
  qed
qed

lemma floor_log2_less:
  assumes "0 < a" and "a < 2 powi n"
  shows "floor_log2 a < n"
proof (rule ccontr)
  assume "\<not> floor_log2 a < n"
  then have "n \<le> floor_log2 a" by simp
  then have "(2::rat) powi n \<le> 2 powi (floor_log2 a)"
    by (intro power_int_increasing) simp_all
  with floor_log2_le [OF assms(1)] assms(2) show False by simp
qed

lemma round_half_even_of_int: "round_half_even (of_int n) = n"
  by (simp add: round_half_even_def)

lemma round_half_even_near: "\<bar>of_int (round_half_even x) - x\<bar> \<le> 1 / 2"
proof -
  have f: "of_int \<lfloor>x\<rfloor> \<le> x" "x < of_int \<lfloor>x\<rfloor> + 1"
    by linarith+
  show ?thesis
    using f by (auto simp add: round_half_even_def Let_def)
qed

lemma round_ne_near:
  "\<bar>round_ne q\<bar> \<le> 2 * \<bar>q\<bar> + 1"
proof (cases "q = 0")
  case True
  then show ?thesis by (simp add: round_ne_def)
next
  case False
  define e where "e = max (floor_log2 \<bar>q\<bar> - 52) (- 1074)"
  define s :: rat where "s = 2 powi e"
  have spos: "0 < s" by (simp add: s_def)
  have r: "round_ne q = of_int (round_half_even (q / s)) * s"
    using False by (simp add: round_ne_def e_def s_def Let_def)
  have aq: "0 < \<bar>q\<bar>" using False by simp
  have s_le: "s \<le> \<bar>q\<bar> + 1"
  proof (cases "floor_log2 \<bar>q\<bar> - 52 \<le> - 1074")
    case True
    then have "e = - 1074" by (simp add: e_def)
    then have "s = 2 powi (- 1074)" by (simp add: s_def)
    also have "\<dots> \<le> 2 powi 0" by (intro power_int_increasing) simp_all
    finally show ?thesis using aq by simp
  next
    case False
    then have "e = floor_log2 \<bar>q\<bar> - 52" by (simp add: e_def)
    then have "s \<le> 2 powi (floor_log2 \<bar>q\<bar>)"
      unfolding s_def by (intro power_int_increasing) simp_all
    also have "\<dots> \<le> \<bar>q\<bar>" by (rule floor_log2_le [OF aq])
    finally show ?thesis by simp
  qed
  have "\<bar>round_ne q - q\<bar> = \<bar>of_int (round_half_even (q / s)) - q / s\<bar> * s"
  proof -
    have "round_ne q - q = (of_int (round_half_even (q / s)) - q / s) * s"
      using spos by (simp add: r field_simps)
    then show ?thesis using spos by (simp add: abs_mult)
  qed
  also have "\<dots> \<le> (1 / 2) * s"
    using round_half_even_near [of "q / s"] spos by (intro mult_right_mono) simp_all
  finally have d: "\<bar>round_ne q - q\<bar> \<le> s / 2" by simp
  have "\<bar>round_ne q\<bar> \<le> \<bar>q\<bar> + s / 2" using d by linarith
  with s_le show ?thesis by linarith
qed

lemma round_ne_of_int:
  assumes "\<bar>n\<bar> < 2 ^ 53"
  shows "round_ne (of_int n) = of_int n"
proof (cases "n = 0")
  case True
  then show ?thesis by (simp add: round_ne_def)
next
  case False
  define e where "e = max (floor_log2 \<bar>of_int n\<bar> - 52) (- 1074)"
  have pos: "0 < \<bar>of_int n :: rat\<bar>" using False by simp
  have "\<bar>of_int n :: rat\<bar> < 2 ^ 53"
  proof -
    have "(of_int \<bar>n\<bar> :: rat) < of_int (2 ^ 53)" using assms by (simp only: of_int_less_iff)
    then show ?thesis by simp
  qed
  then have "\<bar>of_int n :: rat\<bar> < 2 powi 53" by simp
  from floor_log2_less [OF pos this] have e0: "e \<le> 0" by (simp add: e_def)
  define k where "k = nat (- e)"
  have ek: "e = - int k" using e0 by (simp add: k_def)
  have p: "(2::rat) powi e = 1 / 2 ^ k" by (simp add: ek power_int_minus_divide)
  have "of_int n / (2::rat) powi e = of_int (n * 2 ^ k)" by (simp add: p)
  then have "round_half_even (of_int n / 2 powi e) = n * 2 ^ k"
    by (simp only: round_half_even_of_int)
  then have "of_int (round_half_even (of_int n / 2 powi e)) * (2::rat) powi e = of_int n"
    by (simp add: p)
  then show ?thesis using False by (simp add: round_ne_def e_def Let_def)
qed

lemma fl_round_finite:
  assumes "\<bar>round_ne q\<bar> < 2 ^ 1024"
  shows "fl_round q = Finite (round_ne q)"
  using assms by (simp add: fl_round_def Let_def abs_less_iff)

lemma float_of_int_exact:
  assumes "\<bar>n\<bar> < 2 ^ 53"
  shows "float_of_int n = Inr (Finite (of_int n))"
proof -
  have r: "round_ne (of_int n) = of_int n" by (rule round_ne_of_int [OF assms])
  have "(of_int \<bar>n\<bar> :: rat) < of_int (2 ^ 53)" using assms by (simp only: of_int_less_iff)
  then have "\<bar>of_int n :: rat\<bar> < 2 ^ 53" by simp
  also have "(2::rat) ^ 53 \<le> 2 ^ 1024" by (intro power_increasing) simp_all
  finally have "\<bar>round_ne (of_int n)\<bar> < 2 ^ 1024" by (simp only: r)
  from fl_round_finite [OF this] show ?thesis by (simp add: float_of_int_def r)
qed

section \<open>Helper facts\<close>

lemma round_ne_zero: "round_ne 0 = 0"
  by (simp add: round_ne_def)

lemma round_ne_one: "round_ne 1 = 1"
  by code_simp

lemma float_of_int_zero: "float_of_int 0 = Inr (Finite 0)"
  by (simp add: float_of_int_def fl_round_def round_ne_zero)

lemma float_of_int_one: "float_of_int 1 = Inr (Finite 1)"
  by (simp add: float_of_int_def fl_round_def round_ne_one)

lemma int_float_default_zero: "int_float f (ArgInt 0) = Inr 0"
  by (simp add: int_float_def float_of_int_zero trunc_rat_def)

lemma int_float_default_one: "int_float f (ArgInt 1) = Inr 1"
  by (simp add: int_float_def float_of_int_one trunc_rat_def)

section \<open>Absolute branch\<close>

text \<open>
  Claim C1. For every window bounding box and every absolute ROI \<open>(x, y, w, h)\<close> with
  \<open>x \<ge> 0\<close> and \<open>y \<ge> 0\<close>, \<open>_roi_from_absolute\<close> returns the rectangle whose left
  edge is the window's left plus \<open>x\<close>, whose top edge is the window's top plus \<open>y\<close>,
  whose width is \<open>min(w, W - x)\<close> raised to at least 1 and whose height is
  \<open>min(h, H - y)\<close> raised to at least 1.
\<close>

theorem absolute_branch_rectangle:
  "0 \<le> x \<Longrightarrow> 0 \<le> y \<Longrightarrow>
   roi_from_absolute b (x, y, w, h) =
     \<lparr> roi_left = bbox_left b + x, roi_top = bbox_top b + y,
       roi_width = max 1 (min w (bbox_width b - x)),
       roi_height = max 1 (min h (bbox_height b - y)) \<rparr>"
  by (simp add: roi_from_absolute_def Let_def)

theorem absolute_branch_rectangle_witness:
  "(0::int) \<le> 700 \<and> (0::int) \<le> 10 \<and>
   roi_from_absolute
     \<lparr> bbox_title = ''DMV-Viewer'', bbox_top = 50, bbox_left = 100, bbox_width = 800, bbox_height = 600 \<rparr>
     (700, 10, 460, 377)
   = \<lparr> roi_left = 800, roi_top = 60, roi_width = 100, roi_height = 377 \<rparr>"
  using absolute_branch_rectangle [of 700 10
      "\<lparr> bbox_title = ''DMV-Viewer'', bbox_top = 50, bbox_left = 100, bbox_width = 800, bbox_height = 600 \<rparr>"
      460 377]
  by simp

section \<open>Border clamp\<close>

lemma effective_mode_clamp_demo: "effective_mode (clamp_demo_config c) initial_runtime = ''absolute''"
  by (simp add: effective_mode_def clamp_demo_config_def default_config_def initial_runtime_def
        lower_def lower_char_def)

text \<open>
  Claim C4. With a positive \<open>ROI_CLAMP\<close> of \<open>c\<close> pixels, the final step of the resolver
  moves left and top by \<open>c\<close> and takes \<open>2 * c\<close> off width and height, never below 1;
  \<open>_apply_roi_to_bbox\<close> applies exactly this step to the rectangle of whichever branch
  it took. On the rectangle \<open>(0, 0, 10, 10)\<close> a clamp of 3 gives \<open>(3, 3, 4, 4)\<close>, and a
  clamp of 6 leaves width and height at 1.
\<close>

theorem border_clamp_step:
  "(0 < c \<longrightarrow>
      border_clamp c r =
        \<lparr> roi_left = roi_left r + c, roi_top = roi_top r + c,
          roi_width = max 1 (roi_width r - 2 * c), roi_height = max 1 (roi_height r - 2 * c) \<rparr>)
   \<and> (0 < ROI_CLAMP cfg \<and> effective_mode cfg st = ''absolute'' \<longrightarrow>
        apply_roi_to_bbox cfg st b =
          Inr (border_clamp (ROI_CLAMP cfg)
                 (roi_from_absolute b (case ROI_RUNTIME_ABS st of Some a \<Rightarrow> a | None \<Rightarrow> ABS_ROI cfg))))
   \<and> (0 < ROI_CLAMP cfg \<and> effective_mode cfg st \<noteq> ''absolute'' \<longrightarrow>
        apply_roi_to_bbox cfg st b =
          map_sum id (border_clamp (ROI_CLAMP cfg))
            (roi_from_relative b (case ROI_RUNTIME_REL st of Some r \<Rightarrow> r | None \<Rightarrow> REL_ROI cfg)))
   \<and> apply_roi_to_bbox (clamp_demo_config 3) initial_runtime clamp_demo_bbox =
        Inr \<lparr> roi_left = 3, roi_top = 3, roi_width = 4, roi_height = 4 \<rparr>
   \<and> apply_roi_to_bbox (clamp_demo_config 6) initial_runtime clamp_demo_bbox =
        Inr \<lparr> roi_left = 6, roi_top = 6, roi_width = 1, roi_height = 1 \<rparr>"
proof -
  have demo: "apply_roi_to_bbox (clamp_demo_config c) initial_runtime clamp_demo_bbox =
      Inr (border_clamp c \<lparr> roi_left = 0, roi_top = 0, roi_width = 10, roi_height = 10 \<rparr>)" for c
    by (simp add: apply_roi_to_bbox_def effective_mode_clamp_demo)
       (simp add: clamp_demo_config_def default_config_def initial_runtime_def clamp_demo_bbox_def
          roi_from_absolute_def)
  have g1: "0 < c \<longrightarrow>
      border_clamp c r =
        \<lparr> roi_left = roi_left r + c, roi_top = roi_top r + c,
          roi_width = max 1 (roi_width r - 2 * c), roi_height = max 1 (roi_height r - 2 * c) \<rparr>"
    by (simp add: border_clamp_def)
  have g2: "0 < ROI_CLAMP cfg \<and> effective_mode cfg st = ''absolute'' \<longrightarrow>
        apply_roi_to_bbox cfg st b =
          Inr (border_clamp (ROI_CLAMP cfg)
                 (roi_from_absolute b (case ROI_RUNTIME_ABS st of Some a \<Rightarrow> a | None \<Rightarrow> ABS_ROI cfg)))"
    by (simp add: apply_roi_to_bbox_def)
  have g3: "0 < ROI_CLAMP cfg \<and> effective_mode cfg st \<noteq> ''absolute'' \<longrightarrow>
        apply_roi_to_bbox cfg st b =
          map_sum id (border_clamp (ROI_CLAMP cfg))
            (roi_from_relative b (case ROI_RUNTIME_REL st of Some r \<Rightarrow> r | None \<Rightarrow> REL_ROI cfg))"
    by (simp add: apply_roi_to_bbox_def split: sum.splits)
  have g4: "apply_roi_to_bbox (clamp_demo_config 3) initial_runtime clamp_demo_bbox =
        Inr \<lparr> roi_left = 3, roi_top = 3, roi_width = 4, roi_height = 4 \<rparr>"
    by (simp add: demo border_clamp_def)
  have g5: "apply_roi_to_bbox (clamp_demo_config 6) initial_runtime clamp_demo_bbox =
        Inr \<lparr> roi_left = 6, roi_top = 6, roi_width = 1, roi_height = 1 \<rparr>"
    by (simp add: demo border_clamp_def)
  from g1 g2 g3 g4 g5 show ?thesis by blast
qed

theorem border_clamp_step_witness:
  "(0::int) < 3 \<and>
   border_clamp 3 \<lparr> roi_left = 0, roi_top = 0, roi_width = 10, roi_height = 10 \<rparr> =
     \<lparr> roi_left = 3, roi_top = 3, roi_width = 4, roi_height = 4 \<rparr>
   \<and> 0 < ROI_CLAMP (clamp_demo_config 6)
   \<and> effective_mode (clamp_demo_config 6) initial_runtime = ''absolute''
   \<and> apply_roi_to_bbox (clamp_demo_config 6) initial_runtime clamp_demo_bbox =
        Inr \<lparr> roi_left = 6, roi_top = 6, roi_width = 1, roi_height = 1 \<rparr>"
  using border_clamp_step [of 3 "\<lparr> roi_left = 0, roi_top = 0, roi_width = 10, roi_height = 10 \<rparr>"
      "clamp_demo_config 6" initial_runtime clamp_demo_bbox]
  by (simp add: effective_mode_clamp_demo) (simp add: clamp_demo_config_def)


lemma lower_Nil: "lower [] = []"
  by (simp add: lower_def)

section \<open>Runtime setter: invalid mode\<close>

text \<open>
  Claim C7, as stated, fails: the mode is lowercased before it is compared, so the
  request \<open>/set_roi?mode=ABSOLUTE\<close>, whose mode is neither \<open>"absolute"\<close> nor
  \<open>"relative"\<close>, is accepted with status 200 and changes the runtime overrides.
\<close>

theorem set_roi_invalid_mode_counterexample:
  "''ABSOLUTE'' \<noteq> ''absolute'' \<and> ''ABSOLUTE'' \<noteq> ''relative'' \<and>
   set_roi demo_float_of_str demo_format_6f [''mode'' \<mapsto> ''ABSOLUTE''] initial_runtime =
     (Inr (\<lparr> ok = True, message = ''Applied ABS_ROI=(0,0,1,1)'' \<rparr>, 200),
      \<lparr> ROI_RUNTIME_MODE = Some ''absolute'', ROI_RUNTIME_ABS = Some (0, 0, 1, 1),
        ROI_RUNTIME_REL = None \<rparr>)
   \<and> initial_runtime \<noteq>
      \<lparr> ROI_RUNTIME_MODE = Some ''absolute'', ROI_RUNTIME_ABS = Some (0, 0, 1, 1),
        ROI_RUNTIME_REL = None \<rparr>"
  by (simp add: set_roi_def lower_def lower_char_def args_get_def int_float_default_zero
        int_float_default_one str_int_def digit_char_def initial_runtime_def)

text \<open>
  Claim C7, amended. For every \<open>/set_roi\<close> request whose mode parameter, lowercased, is
  neither \<open>"absolute"\<close> nor \<open>"relative"\<close> (in particular a missing or empty one), the
  view answers status 400 with the JSON object \<open>ok = False\<close> and its explanation, and
  the three runtime-override globals are unchanged.
\<close>

theorem set_roi_invalid_mode:
  "(lower (case args ''mode'' of Some m \<Rightarrow> m | None \<Rightarrow> []) \<noteq> ''absolute'' \<and>
    lower (case args ''mode'' of Some m \<Rightarrow> m | None \<Rightarrow> []) \<noteq> ''relative'' \<longrightarrow>
      set_roi float_of_str format_6f args st =
        (Inr (\<lparr> ok = False, message = ''Specify mode=absolute or mode=relative'' \<rparr>, 400), st))
   \<and> (args ''mode'' = None \<or> args ''mode'' = Some [] \<longrightarrow>
      set_roi float_of_str format_6f args st =
        (Inr (\<lparr> ok = False, message = ''Specify mode=absolute or mode=relative'' \<rparr>, 400), st))"
  by (auto simp add: set_roi_def lower_Nil)

theorem set_roi_invalid_mode_witness:
  "lower (case [''mode'' \<mapsto> ''crop''] ''mode'' of Some m \<Rightarrow> m | None \<Rightarrow> []) \<noteq> ''absolute'' \<and>
   lower (case [''mode'' \<mapsto> ''crop''] ''mode'' of Some m \<Rightarrow> m | None \<Rightarrow> []) \<noteq> ''relative'' \<and>
   set_roi demo_float_of_str demo_format_6f [''mode'' \<mapsto> ''crop'']
       \<lparr> ROI_RUNTIME_MODE = Some ''absolute'', ROI_RUNTIME_ABS = Some (0, 0, 1, 1), ROI_RUNTIME_REL = None \<rparr> =
     (Inr (\<lparr> ok = False, message = ''Specify mode=absolute or mode=relative'' \<rparr>, 400),
      \<lparr> ROI_RUNTIME_MODE = Some ''absolute'', ROI_RUNTIME_ABS = Some (0, 0, 1, 1), ROI_RUNTIME_REL = None \<rparr>)
   \<and> (Map.empty ''mode'' = (None :: string option) \<and>
      set_roi demo_float_of_str demo_format_6f Map.empty initial_runtime =
     (Inr (\<lparr> ok = False, message = ''Specify mode=absolute or mode=relative'' \<rparr>, 400), initial_runtime))"
  using set_roi_invalid_mode [of "[''mode'' \<mapsto> ''crop'']" demo_float_of_str demo_format_6f
      "\<lparr> ROI_RUNTIME_MODE = Some ''absolute'', ROI_RUNTIME_ABS = Some (0, 0, 1, 1), ROI_RUNTIME_REL = None \<rparr>"]
    set_roi_invalid_mode [of Map.empty demo_float_of_str demo_format_6f initial_runtime]
  by (simp add: lower_def lower_char_def)

section \<open>Window locator\<close>

lemma starts_with_iff: "starts_with sub s \<longleftrightarrow> (\<exists>ss. s = sub @ ss)"
  by (induction sub s rule: starts_with.induct) auto

lemma str_in_iff: "str_in sub s \<longleftrightarrow> (\<exists>ps ss. s = ps @ sub @ ss)"
proof (induction s)
  case Nil
  show ?case by auto
next
  case (Cons d ds)
  have "(\<exists>ps ss. d # ds = ps @ sub @ ss) \<longleftrightarrow>
        (\<exists>ss. d # ds = sub @ ss) \<or> (\<exists>ps ss. ds = ps @ sub @ ss)"
  proof
    assume "\<exists>ps ss. d # ds = ps @ sub @ ss"
    then obtain ps ss where e: "d # ds = ps @ sub @ ss" by blast
    show "(\<exists>ss. d # ds = sub @ ss) \<or> (\<exists>ps ss. ds = ps @ sub @ ss)"
    proof (cases ps)
      case Nil
      with e show ?thesis by auto
    next
      case (Cons p ps')
      with e have "ds = ps' @ sub @ ss" by simp
      then show ?thesis by blast
    qed
  next
    assume "(\<exists>ss. d # ds = sub @ ss) \<or> (\<exists>ps ss. ds = ps @ sub @ ss)"
    then show "\<exists>ps ss. d # ds = ps @ sub @ ss"
    proof
      assume "\<exists>ss. d # ds = sub @ ss"
      then obtain ss where "d # ds = [] @ sub @ ss" by auto
      then show ?thesis by blast
    next
      assume "\<exists>ps ss. ds = ps @ sub @ ss"
      then obtain ps ss where "d # ds = (d # ps) @ sub @ ss" by auto
      then show ?thesis by blast
    qed
  qed
  with Cons show ?case by (simp add: starts_with_iff)
qed

lemma not_found_neq_minimized:
  "''Window '' @ [CHR 39] @ a @ [CHR 39] @ '' not found'' \<noteq>
   ''Window '' @ [CHR 39] @ b @ [CHR 39] @ '' is minimized''"
proof
  assume e: "''Window '' @ [CHR 39] @ a @ [CHR 39] @ '' not found'' =
             ''Window '' @ [CHR 39] @ b @ [CHR 39] @ '' is minimized''"
  have "rev (''Window '' @ [CHR 39] @ a @ [CHR 39] @ '' not found'') ! 1 = CHR ''n''"
    by simp
  moreover have "rev (''Window '' @ [CHR 39] @ b @ [CHR 39] @ '' is minimized'') ! 1 = CHR ''e''"
    by simp
  ultimately show False using e by simp
qed

lemma filter_first_match:
  "xs = pre @ w # post \<Longrightarrow> \<forall>v\<in>set pre. \<not> P v \<Longrightarrow> P w \<Longrightarrow>
   filter P xs = w # filter P post"
  by simp

text \<open>
  Claim C8, amended. \<open>find_window_bbox\<close> raises the not-found error exactly when no
  enumerated window has a title containing \<open>WINDOW_TITLE\<close> as a contiguous,
  case-sensitive substring. Otherwise it looks at the first match in enumeration order
  only: if that window is minimized it raises the minimized error (whether or not other
  windows match), else it returns that window's title, left, top, width
  \<open>right - left\<close> and height \<open>bottom - top\<close>.
\<close>

theorem find_window_bbox_cases:
  "(find_window_bbox cfg gw =
      Inl (ValueError (''Window '' @ [CHR 39] @ WINDOW_TITLE cfg @ [CHR 39] @ '' not found'')))
     = (\<forall>w\<in>set (gw (WINDOW_TITLE cfg)). \<not> (\<exists>ps ss. win_title w = ps @ WINDOW_TITLE cfg @ ss))
   \<and> (gw (WINDOW_TITLE cfg) = pre @ w # post
       \<and> (\<forall>v\<in>set pre. \<not> (\<exists>ps ss. win_title v = ps @ WINDOW_TITLE cfg @ ss))
       \<and> (\<exists>ps ss. win_title w = ps @ WINDOW_TITLE cfg @ ss)
      \<longrightarrow> find_window_bbox cfg gw =
            (if win_isMinimized w
             then Inl (ValueError (''Window '' @ [CHR 39] @ win_title w @ [CHR 39] @ '' is minimized''))
             else Inr \<lparr> bbox_title = win_title w, bbox_top = win_top w, bbox_left = win_left w,
                       bbox_width = win_right w - win_left w,
                       bbox_height = win_bottom w - win_top w \<rparr>))"
proof -
  let ?T = "WINDOW_TITLE cfg"
  let ?P = "\<lambda>w. str_in ?T (win_title w)"
  have nf: "(find_window_bbox cfg gw =
      Inl (ValueError (''Window '' @ [CHR 39] @ ?T @ [CHR 39] @ '' not found'')))
     = (filter ?P (gw ?T) = [])"
    using not_found_neq_minimized [of ?T]
    by (simp add: find_window_bbox_def split: list.splits)
  have a: "(find_window_bbox cfg gw =
      Inl (ValueError (''Window '' @ [CHR 39] @ ?T @ [CHR 39] @ '' not found'')))
     = (\<forall>w\<in>set (gw ?T). \<not> (\<exists>ps ss. win_title w = ps @ ?T @ ss))"
    unfolding nf by (simp add: filter_empty_conv str_in_iff)
  have b: "gw ?T = pre @ w # post
       \<and> (\<forall>v\<in>set pre. \<not> (\<exists>ps ss. win_title v = ps @ ?T @ ss))
       \<and> (\<exists>ps ss. win_title w = ps @ ?T @ ss)
      \<longrightarrow> find_window_bbox cfg gw =
            (if win_isMinimized w
             then Inl (ValueError (''Window '' @ [CHR 39] @ win_title w @ [CHR 39] @ '' is minimized''))
             else Inr \<lparr> bbox_title = win_title w, bbox_top = win_top w, bbox_left = win_left w,
                       bbox_width = win_right w - win_left w,
                       bbox_height = win_bottom w - win_top w \<rparr>)"
  proof (intro impI, elim conjE)
    assume g: "gw ?T = pre @ w # post"
      and p: "\<forall>v\<in>set pre. \<not> (\<exists>ps ss. win_title v = ps @ ?T @ ss)"
      and m: "\<exists>ps ss. win_title w = ps @ ?T @ ss"
    have "filter ?P (gw ?T) = w # filter ?P post"
      using g p m by (intro filter_first_match) (simp_all add: str_in_iff)
    then show "find_window_bbox cfg gw =
            (if win_isMinimized w
             then Inl (ValueError (''Window '' @ [CHR 39] @ win_title w @ [CHR 39] @ '' is minimized''))
             else Inr \<lparr> bbox_title = win_title w, bbox_top = win_top w, bbox_left = win_left w,
                       bbox_width = win_right w - win_left w,
                       bbox_height = win_bottom w - win_top w \<rparr>)"
      by (simp add: find_window_bbox_def)
  qed
  from a b show ?thesis by blast
qed

lemma str_in_demo_1: "str_in ''DMV-Viewer'' ''DMV-Viewer''"
  by simp

text \<open>
  Claim C8, as stated, fails: with two matching windows of which the first is
  minimized, the match is not the sole one, yet the call raises the minimized error
  instead of returning the bounding box of the first match.
\<close>

theorem find_window_bbox_first_minimized_counterexample:
  "str_in (WINDOW_TITLE default_config) (win_title (two_windows (WINDOW_TITLE default_config) ! 0))
   \<and> str_in (WINDOW_TITLE default_config) (win_title (two_windows (WINDOW_TITLE default_config) ! 1))
   \<and> length (two_windows (WINDOW_TITLE default_config)) = 2
   \<and> find_window_bbox default_config two_windows =
       Inl (ValueError (''Window '' @ [CHR 39] @ ''DMV-Viewer'' @ [CHR 39] @ '' is minimized''))
   \<and> find_window_bbox default_config two_windows \<noteq>
       Inr \<lparr> bbox_title = ''DMV-Viewer'', bbox_top = - 32000, bbox_left = - 32000,
             bbox_width = 160, bbox_height = 28 \<rparr>"
  by (simp add: find_window_bbox_def default_config_def two_windows_def)

theorem find_window_bbox_cases_witness:
  "two_windows (WINDOW_TITLE default_config) =
     [] @ \<lparr> win_title = ''DMV-Viewer'', win_isMinimized = True,
        win_left = - 32000, win_top = - 32000, win_right = - 31840, win_bottom = - 31972 \<rparr>
      # [\<lparr> win_title = ''DMV-Viewer (2)'', win_isMinimized = False,
        win_left = 100, win_top = 50, win_right = 900, win_bottom = 650 \<rparr>]
   \<and> (\<exists>ps ss. ''DMV-Viewer'' = ps @ WINDOW_TITLE default_config @ ss)
   \<and> find_window_bbox default_config two_windows =
       Inl (ValueError (''Window '' @ [CHR 39] @ ''DMV-Viewer'' @ [CHR 39] @ '' is minimized''))
   \<and> find_window_bbox default_config no_windows =
       Inl (ValueError (''Window '' @ [CHR 39] @ ''DMV-Viewer'' @ [CHR 39] @ '' not found''))"
proof -
  have m: "\<exists>ps ss. ''DMV-Viewer'' = ps @ WINDOW_TITLE default_config @ ss"
    using str_in_demo_1 by (simp add: str_in_iff default_config_def)
  have e: "\<forall>w\<in>set (no_windows (WINDOW_TITLE default_config)).
             \<not> (\<exists>ps ss. win_title w = ps @ WINDOW_TITLE default_config @ ss)"
    by (simp add: no_windows_def)
  show ?thesis
    using m e
      find_window_bbox_cases [of default_config two_windows "[]"
        "\<lparr> win_title = ''DMV-Viewer'', win_isMinimized = True,
           win_left = - 32000, win_top = - 32000, win_right = - 31840, win_bottom = - 31972 \<rparr>"
        "[\<lparr> win_title = ''DMV-Viewer (2)'', win_isMinimized = False,
           win_left = 100, win_top = 50, win_right = 900, win_bottom = 650 \<rparr>]"]
      find_window_bbox_cases [of default_config no_windows]
    by (simp add: two_windows_def default_config_def)
qed

section \<open>Frame grabber\<close>

lemma grab_frame_try_cases:
  "grab_frame_try cfg gw sct_grab to_bgr st = Inl e \<longleftrightarrow>
     find_window_bbox cfg gw = Inl e
     \<or> (\<exists>bw. find_window_bbox cfg gw = Inr bw \<and>
          (apply_roi_to_bbox cfg st bw = Inl e
           \<or> (\<exists>r. apply_roi_to_bbox cfg st bw = Inr r \<and>
                (sct_grab r = Inl e \<or> (\<exists>shot. sct_grab r = Inr shot \<and> to_bgr shot = Inl e)))))"
  by (auto simp add: grab_frame_try_def split: sum.splits)

lemma snapshot_of_error_frame:
  assumes "grab_frame_try cfg gw sct_grab to_bgr st = Inl e"
    and "imencode (error_frame e) (JPEG_QUALITY cfg) = (True, jpg)"
  shows "snapshot cfg gw sct_grab to_bgr imencode st =
      Inr \<lparr> status = 200,
            headers = [''Content-Type'' \<mapsto> ''text/html; charset=utf-8'']
                     (''Content-Type'' \<mapsto> ''image/jpeg'',
                      ''Cache-Control'' \<mapsto> ''no-store, no-cache, must-revalidate, max-age=0'',
                      ''Pragma'' \<mapsto> ''no-cache'',
                      ''Expires'' \<mapsto> ''0'',
                      ''Content-Disposition'' \<mapsto> ''inline; filename=snapshot.jpg''),
            body = jpg \<rparr>"
  using assms
  by (simp add: snapshot_def grab_frame_def encode_jpeg_def make_response_def)

text \<open>
  Claim C9. Whenever the window lookup, the ROI resolution, the screen grab or the
  colour conversion raises an error \<open>e\<close>, \<open>grab_frame\<close> does not propagate it: it
  returns, together with \<open>e\<close>, the image made of \<open>np.zeros((480, 640, 3))\<close> (480 rows,
  640 columns, 3 channels, all black) with \<open>str(e)\<close> drawn into it. Hence, when the
  JPEG encoder accepts that image, \<open>/snapshot.jpg\<close> answers status 200 with content type
  \<open>image/jpeg\<close> and the encoded bytes as body, also when the window is missing or
  minimized.
\<close>

theorem grab_frame_error_frame:
  "(find_window_bbox cfg gw = Inl e
     \<or> (\<exists>bw. find_window_bbox cfg gw = Inr bw \<and>
          (apply_roi_to_bbox cfg st bw = Inl e
           \<or> (\<exists>r. apply_roi_to_bbox cfg st bw = Inr r \<and>
                (sct_grab r = Inl e \<or> (\<exists>shot. sct_grab r = Inr shot \<and> to_bgr shot = Inl e)))))
    \<longrightarrow>
      grab_frame cfg gw sct_grab to_bgr st =
        (PutText (Zeros 480 640 3) (str_of_error e) (20, 240) ''FONT_HERSHEY_SIMPLEX'' (7 / 10)
           (0, 0, 255) 2, Some e)
      \<and> image_shape sh (fst (grab_frame cfg gw sct_grab to_bgr st)) = (480, 640, 3)
      \<and> (\<forall>jpg. imencode (fst (grab_frame cfg gw sct_grab to_bgr st)) (JPEG_QUALITY cfg) = (True, jpg) \<longrightarrow>
            (\<exists>r. snapshot cfg gw sct_grab to_bgr imencode st = Inr r \<and> status r = 200 \<and> body r = jpg
                  \<and> headers r ''Content-Type'' = Some ''image/jpeg'')))"
proof (intro impI)
  assume "find_window_bbox cfg gw = Inl e
     \<or> (\<exists>bw. find_window_bbox cfg gw = Inr bw \<and>
          (apply_roi_to_bbox cfg st bw = Inl e
           \<or> (\<exists>r. apply_roi_to_bbox cfg st bw = Inr r \<and>
                (sct_grab r = Inl e \<or> (\<exists>shot. sct_grab r = Inr shot \<and> to_bgr shot = Inl e)))))"
  then have t: "grab_frame_try cfg gw sct_grab to_bgr st = Inl e"
    by (simp only: grab_frame_try_cases)
  have g: "grab_frame cfg gw sct_grab to_bgr st = (error_frame e, Some e)"
    using t by (simp add: grab_frame_def)
  have s: "\<forall>jpg. imencode (fst (grab_frame cfg gw sct_grab to_bgr st)) (JPEG_QUALITY cfg) = (True, jpg) \<longrightarrow>
            (\<exists>r. snapshot cfg gw sct_grab to_bgr imencode st = Inr r \<and> status r = 200 \<and> body r = jpg
                  \<and> headers r ''Content-Type'' = Some ''image/jpeg'')"
  proof (intro allI impI)
    fix jpg
    assume "imencode (fst (grab_frame cfg gw sct_grab to_bgr st)) (JPEG_QUALITY cfg) = (True, jpg)"
    then have "imencode (error_frame e) (JPEG_QUALITY cfg) = (True, jpg)"
      by (simp add: g)
    with t snapshot_of_error_frame [of cfg gw sct_grab to_bgr st e imencode jpg]
    show "\<exists>r. snapshot cfg gw sct_grab to_bgr imencode st = Inr r \<and> status r = 200 \<and> body r = jpg
                  \<and> headers r ''Content-Type'' = Some ''image/jpeg''"
      by simp
  qed
  show "grab_frame cfg gw sct_grab to_bgr st =
        (PutText (Zeros 480 640 3) (str_of_error e) (20, 240) ''FONT_HERSHEY_SIMPLEX'' (7 / 10)
           (0, 0, 255) 2, Some e)
      \<and> image_shape sh (fst (grab_frame cfg gw sct_grab to_bgr st)) = (480, 640, 3)
      \<and> (\<forall>jpg. imencode (fst (grab_frame cfg gw sct_grab to_bgr st)) (JPEG_QUALITY cfg) = (True, jpg) \<longrightarrow>
            (\<exists>r. snapshot cfg gw sct_grab to_bgr imencode st = Inr r \<and> status r = 200 \<and> body r = jpg
                  \<and> headers r ''Content-Type'' = Some ''image/jpeg''))"
    using s by (simp add: g) (simp add: error_frame_def)
qed

theorem grab_frame_error_frame_witness:
  "find_window_bbox default_config no_windows =
     Inl (ValueError (''Window '' @ [CHR 39] @ ''DMV-Viewer'' @ [CHR 39] @ '' not found''))
   \<and> grab_frame default_config no_windows failing_grab unit_to_bgr initial_runtime =
        (PutText (Zeros 480 640 3) (''Window '' @ [CHR 39] @ ''DMV-Viewer'' @ [CHR 39] @ '' not found'')
           (20, 240) ''FONT_HERSHEY_SIMPLEX'' (7 / 10) (0, 0, 255) 2,
         Some (ValueError (''Window '' @ [CHR 39] @ ''DMV-Viewer'' @ [CHR 39] @ '' not found'')))
   \<and> demo_imencode (fst (grab_frame default_config no_windows failing_grab unit_to_bgr initial_runtime))
        (JPEG_QUALITY default_config) = (True, ''JPEG'')
   \<and> (\<exists>r. snapshot default_config no_windows failing_grab unit_to_bgr demo_imencode initial_runtime = Inr r
          \<and> status r = 200 \<and> body r = ''JPEG'' \<and> headers r ''Content-Type'' = Some ''image/jpeg'')"
proof -
  have f: "find_window_bbox default_config no_windows =
     Inl (ValueError (''Window '' @ [CHR 39] @ ''DMV-Viewer'' @ [CHR 39] @ '' not found''))"
    by (simp add: find_window_bbox_def no_windows_def default_config_def)
  have d: "demo_imencode i q = (True, ''JPEG'')" for i q
    by (simp add: demo_imencode_def)
  show ?thesis
    using f d
      grab_frame_error_frame [of default_config no_windows
        "ValueError (''Window '' @ [CHR 39] @ ''DMV-Viewer'' @ [CHR 39] @ '' not found'')"
        initial_runtime failing_grab unit_to_bgr "\<lambda>u. (0, 0, 0)" demo_imencode]
    by simp
qed

section \<open>set_roi and health\<close>

lemma set_roi_keeps_exclusive:
  "ROI_RUNTIME_ABS st = None \<or> ROI_RUNTIME_REL st = None \<Longrightarrow>
   ROI_RUNTIME_ABS (snd (set_roi f g a st)) = None \<or> ROI_RUNTIME_REL (snd (set_roi f g a st)) = None"
  by (simp add: set_roi_def Let_def split: sum.splits)

lemma set_roi_seq_exclusive:
  "ROI_RUNTIME_ABS st = None \<or> ROI_RUNTIME_REL st = None \<Longrightarrow>
   ROI_RUNTIME_ABS (set_roi_seq f g reqs st) = None \<or> ROI_RUNTIME_REL (set_roi_seq f g reqs st) = None"
proof (induction reqs arbitrary: st)
  case Nil
  then show ?case by simp
next
  case (Cons a reqs)
  show ?case
    using Cons.IH [OF set_roi_keeps_exclusive [OF Cons.prems]] by simp
qed

lemma set_roi_absolute_success:
  assumes "lower (case args ''mode'' of Some m \<Rightarrow> m | None \<Rightarrow> []) = ''absolute''"
    and "set_roi f g args st = (Inr rep, st')"
  shows "\<exists>x y w h.
           int_float f (args_get args ''x'' 0) = Inr x \<and> int_float f (args_get args ''y'' 0) = Inr y \<and>
           int_float f (args_get args ''w'' 1) = Inr w \<and> int_float f (args_get args ''h'' 1) = Inr h \<and>
           snd rep = 200 \<and> ok (fst rep) \<and>
           st' = \<lparr> ROI_RUNTIME_MODE = Some ''absolute'', ROI_RUNTIME_ABS = Some (x, y, w, h),
                   ROI_RUNTIME_REL = None \<rparr>"
  using assms by (auto simp add: set_roi_def split: sum.splits)

lemma set_roi_relative_success:
  assumes "lower (case args ''mode'' of Some m \<Rightarrow> m | None \<Rightarrow> []) = ''relative''"
    and "set_roi f g args st = (Inr rep, st')"
  shows "\<exists>l t r b.
           py_float f (args_get args ''l'' 0) = Inr l \<and> py_float f (args_get args ''t'' 0) = Inr t \<and>
           py_float f (args_get args ''r'' 1) = Inr r \<and> py_float f (args_get args ''b'' 1) = Inr b \<and>
           snd rep = 200 \<and> ok (fst rep) \<and>
           st' = \<lparr> ROI_RUNTIME_MODE = Some ''relative'', ROI_RUNTIME_ABS = None,
                   ROI_RUNTIME_REL = Some (l, t, r, b) \<rparr>"
  using assms by (auto simp add: set_roi_def split: sum.splits)

lemma health_ok_fields:
  assumes "health cfg gw st = (HealthOk t wb r m a rl, code)"
  shows "m = (case ROI_RUNTIME_MODE st of Some m \<Rightarrow> if m \<noteq> [] then m else ROI_MODE cfg | None \<Rightarrow> ROI_MODE cfg)
         \<and> a = ROI_RUNTIME_ABS st \<and> rl = ROI_RUNTIME_REL st \<and> code = 200"
  using assms by (auto simp add: health_def split: sum.splits)

lemma health_absolute_ok:
  assumes "find_window_bbox cfg gw = Inr bw"
    and "st = \<lparr> ROI_RUNTIME_MODE = Some ''absolute'', ROI_RUNTIME_ABS = Some a, ROI_RUNTIME_REL = None \<rparr>"
  shows "health cfg gw st =
           (HealthOk (bbox_title bw) (bbox_left bw, bbox_top bw, bbox_width bw, bbox_height bw)
              (border_clamp (ROI_CLAMP cfg) (roi_from_absolute bw a))
              ''absolute'' (Some a) None, 200)"
proof -
  have "effective_mode cfg st = ''absolute''"
    by (simp add: assms(2) effective_mode_def lower_def lower_char_def)
  then have "apply_roi_to_bbox cfg st bw = Inr (border_clamp (ROI_CLAMP cfg) (roi_from_absolute bw a))"
    by (simp add: apply_roi_to_bbox_def assms(2))
  then show ?thesis
    by (simp add: health_def assms)
qed

lemma health_relative_ok:
  assumes "find_window_bbox cfg gw = Inr bw"
    and "st = \<lparr> ROI_RUNTIME_MODE = Some ''relative'', ROI_RUNTIME_ABS = None, ROI_RUNTIME_REL = Some rr \<rparr>"
    and "roi_from_relative bw rr = Inr r"
  shows "health cfg gw st =
           (HealthOk (bbox_title bw) (bbox_left bw, bbox_top bw, bbox_width bw, bbox_height bw)
              (border_clamp (ROI_CLAMP cfg) r)
              ''relative'' None (Some rr), 200)"
proof -
  have "effective_mode cfg st \<noteq> ''absolute''"
    by (simp add: assms(2) effective_mode_def lower_def lower_char_def)
  then have "apply_roi_to_bbox cfg st bw = Inr (border_clamp (ROI_CLAMP cfg) r)"
    by (simp add: apply_roi_to_bbox_def assms(2,3))
  then show ?thesis
    by (simp add: health_def assms)
qed

section \<open>Clamping and min/max on floats\<close>

lemma clamp01_Finite: "clamp01 (Finite q) = Finite (max 0 (min 1 q))"
  by (simp add: clamp01_def py_min_def py_max_def max_def min_def)

lemma clamp01_special: "clamp01 NaN = Finite 1" "clamp01 PosInf = Finite 1" "clamp01 NegInf = Finite 0"
  by (simp_all add: clamp01_def py_min_def py_max_def)

lemma clamp01_range: "\<exists>q. clamp01 v = Finite q \<and> 0 \<le> q \<and> q \<le> 1"
  by (cases v) (simp_all add: clamp01_Finite clamp01_special)

lemma clamp01_idem: "clamp01 (clamp01 v) = clamp01 v"
  by (cases v) (simp_all add: clamp01_Finite clamp01_special)

lemma py_min_Finite: "py_min (Finite a) (Finite b) = Finite (min a b)"
  by (simp add: py_min_def min_def)

lemma py_max_Finite: "py_max (Finite a) (Finite b) = Finite (max a b)"
  by (simp add: py_max_def max_def)

lemma py_min_clamp_commute: "py_min (clamp01 a) (clamp01 b) = py_min (clamp01 b) (clamp01 a)"
proof -
  obtain p q where "clamp01 a = Finite p" "clamp01 b = Finite q"
    using clamp01_range by blast
  then show ?thesis by (simp add: py_min_Finite min.commute)
qed

lemma py_max_clamp_commute: "py_max (clamp01 a) (clamp01 b) = py_max (clamp01 b) (clamp01 a)"
proof -
  obtain p q where "clamp01 a = Finite p" "clamp01 b = Finite q"
    using clamp01_range by blast
  then show ?thesis by (simp add: py_max_Finite max.commute)
qed

section \<open>Relative branch: swapping\<close>

text \<open>
  Claim C3. Every fraction of a relative ROI, whatever its value (out of range,
  infinite or NaN), is clamped into \<open>[0, 1]\<close> before use, and \<open>_roi_from_relative\<close>
  returns the same result when left and right are swapped, when top and bottom are
  swapped, and when both pairs are swapped.
\<close>

theorem relative_branch_swap:
  "roi_from_relative bb (r, t, l, b) = roi_from_relative bb (l, t, r, b)
   \<and> roi_from_relative bb (l, b, r, t) = roi_from_relative bb (l, t, r, b)
   \<and> roi_from_relative bb (r, b, l, t) = roi_from_relative bb (l, t, r, b)
   \<and> roi_from_relative bb (clamp01 l, clamp01 t, clamp01 r, clamp01 b) = roi_from_relative bb (l, t, r, b)"
proof -
  have s1: "roi_from_relative bb (r, t, l, b) = roi_from_relative bb (l, t, r, b)"
    unfolding roi_from_relative_def Let_def prod.case
    by (simp only: py_min_clamp_commute [of r l] py_max_clamp_commute [of r l])
  have s2: "roi_from_relative bb (l, b, r, t) = roi_from_relative bb (l, t, r, b)"
    unfolding roi_from_relative_def Let_def prod.case
    by (simp only: py_min_clamp_commute [of b t] py_max_clamp_commute [of b t])
  have s3: "roi_from_relative bb (r, b, l, t) = roi_from_relative bb (l, t, r, b)"
    unfolding roi_from_relative_def Let_def prod.case
    by (simp only: py_min_clamp_commute [of r l] py_max_clamp_commute [of r l]
          py_min_clamp_commute [of b t] py_max_clamp_commute [of b t])
  have s4: "roi_from_relative bb (clamp01 l, clamp01 t, clamp01 r, clamp01 b) =
            roi_from_relative bb (l, t, r, b)"
    unfolding roi_from_relative_def Let_def prod.case
    by (simp only: clamp01_idem)
  from s1 s2 s3 s4 show ?thesis by blast
qed

section \<open>Relative branch: value\<close>

lemma of_int_abs_less:
  assumes "\<bar>n\<bar> < (2::int) ^ 53"
  shows "\<bar>of_int n :: rat\<bar> < 2 ^ 53"
proof -
  have "(of_int \<bar>n\<bar> :: rat) < of_int (2 ^ 53)" using assms by (simp only: of_int_less_iff)
  then show ?thesis by simp
qed

lemma edge_bounded:
  assumes L: "\<bar>L\<bar> < 2 ^ 53" and W: "\<bar>W\<bar> < 2 ^ 53" and x: "0 \<le> x" "x \<le> 1"
  shows "edge L W (Finite x) = Inr (edge_closed_form L W x)"
proof -
  define B :: rat where "B = 2 ^ 53"
  have aL: "\<bar>of_int L :: rat\<bar> < B" unfolding B_def by (rule of_int_abs_less [OF L])
  have aW: "\<bar>of_int W :: rat\<bar> < B" unfolding B_def by (rule of_int_abs_less [OF W])
  have "\<bar>of_int W * x\<bar> = \<bar>of_int W :: rat\<bar> * x" using x by (simp add: abs_mult)
  also have "\<dots> \<le> \<bar>of_int W :: rat\<bar> * 1" using x by (intro mult_left_mono) simp_all
  finally have p: "\<bar>of_int W * x\<bar> < B" using aW by simp
  define r1 where "r1 = round_ne (of_int W * x)"
  have r1: "\<bar>r1\<bar> \<le> 2 * B + 1"
    using round_ne_near [of "of_int W * x"] p unfolding r1_def by linarith
  have small: "6 * B + 3 < 2 ^ 57" unfolding B_def by simp
  have big: "(2::rat) ^ 57 \<le> 2 ^ 1024" by (intro power_increasing) simp_all
  have Bpos: "0 < B" unfolding B_def by simp
  have "\<bar>r1\<bar> \<le> 6 * B + 3" using r1 Bpos by linarith
  then have "\<bar>r1\<bar> < 2 ^ 57" using small by (rule le_less_trans)
  then have "\<bar>r1\<bar> < 2 ^ 1024" using big by (rule less_le_trans)
  then have f1: "fl_round (of_int W * x) = Finite r1"
    unfolding r1_def by (rule fl_round_finite)
  define r2 where "r2 = round_ne (of_int L + r1)"
  have s2: "\<bar>of_int L + r1\<bar> \<le> B + (2 * B + 1)" using aL r1 by linarith
  have n2: "\<bar>r2\<bar> \<le> 2 * \<bar>of_int L + r1\<bar> + 1" unfolding r2_def by (rule round_ne_near)
  have "2 * \<bar>of_int L + r1\<bar> + 1 \<le> 2 * (B + (2 * B + 1)) + 1" using s2 by simp
  with n2 have "\<bar>r2\<bar> \<le> 2 * (B + (2 * B + 1)) + 1" by (rule order_trans)
  then have "\<bar>r2\<bar> \<le> 6 * B + 3" by simp
  then have "\<bar>r2\<bar> < 2 ^ 57" using small by (rule le_less_trans)
  then have "\<bar>r2\<bar> < 2 ^ 1024" using big by (rule less_le_trans)
  then have f2: "fl_round (of_int L + r1) = Finite r2"
    unfolding r2_def by (rule fl_round_finite)
  show ?thesis
    by (simp add: edge_def float_of_int_exact [OF L] float_of_int_exact [OF W] f1 f2)
       (simp add: edge_closed_form_def r2_def r1_def)
qed

lemma roi_from_relative_bounded:
  assumes "\<bar>bbox_left bb\<bar> < 2 ^ 53" "\<bar>bbox_top bb\<bar> < 2 ^ 53"
    "\<bar>bbox_width bb\<bar> < 2 ^ 53" "\<bar>bbox_height bb\<bar> < 2 ^ 53"
    and cl: "clamp01 l = Finite cl" and ct: "clamp01 t = Finite ct"
    and cr: "clamp01 r = Finite cr" and cb: "clamp01 b = Finite cb"
  shows "roi_from_relative bb (l, t, r, b) =
     Inr \<lparr> roi_left = edge_closed_form (bbox_left bb) (bbox_width bb) (min cl cr),
           roi_top = edge_closed_form (bbox_top bb) (bbox_height bb) (min ct cb),
           roi_width = max 1 (edge_closed_form (bbox_left bb) (bbox_width bb) (max cl cr)
                              - edge_closed_form (bbox_left bb) (bbox_width bb) (min cl cr)),
           roi_height = max 1 (edge_closed_form (bbox_top bb) (bbox_height bb) (max ct cb)
                               - edge_closed_form (bbox_top bb) (bbox_height bb) (min ct cb)) \<rparr>"
proof -
  have rng: "0 \<le> cl \<and> cl \<le> 1" "0 \<le> ct \<and> ct \<le> 1" "0 \<le> cr \<and> cr \<le> 1" "0 \<le> cb \<and> cb \<le> 1"
    using clamp01_range [of l] clamp01_range [of t] clamp01_range [of r] clamp01_range [of b]
      cl ct cr cb by auto
  have e1: "edge (bbox_left bb) (bbox_width bb) (Finite (min cl cr)) =
              Inr (edge_closed_form (bbox_left bb) (bbox_width bb) (min cl cr))"
    using rng by (intro edge_bounded assms) (simp_all add: min_def)
  have e2: "edge (bbox_top bb) (bbox_height bb) (Finite (min ct cb)) =
              Inr (edge_closed_form (bbox_top bb) (bbox_height bb) (min ct cb))"
    using rng by (intro edge_bounded assms) (simp_all add: min_def)
  have e3: "edge (bbox_left bb) (bbox_width bb) (Finite (max cl cr)) =
              Inr (edge_closed_form (bbox_left bb) (bbox_width bb) (max cl cr))"
    using rng by (intro edge_bounded assms) (simp_all add: max_def)
  have e4: "edge (bbox_top bb) (bbox_height bb) (Finite (max ct cb)) =
              Inr (edge_closed_form (bbox_top bb) (bbox_height bb) (max ct cb))"
    using rng by (intro edge_bounded assms) (simp_all add: max_def)
  show ?thesis
    by (simp add: roi_from_relative_def Let_def cl ct cr cb py_min_Finite py_max_Finite e1 e2 e3 e4)
qed

lemma roi_from_relative_total:
  assumes "\<bar>bbox_left bb\<bar> < 2 ^ 53" "\<bar>bbox_top bb\<bar> < 2 ^ 53"
    "\<bar>bbox_width bb\<bar> < 2 ^ 53" "\<bar>bbox_height bb\<bar> < 2 ^ 53"
  shows "\<exists>ro. roi_from_relative bb rr = Inr ro"
proof -
  obtain l t r b where rr: "rr = (l, t, r, b)" by (cases rr) auto
  obtain cl ct cr cb where "clamp01 l = Finite cl" "clamp01 t = Finite ct"
      "clamp01 r = Finite cr" "clamp01 b = Finite cb"
    using clamp01_range [of l] clamp01_range [of t] clamp01_range [of r] clamp01_range [of b]
    by blast
  from roi_from_relative_bounded [OF assms this] show ?thesis unfolding rr by blast
qed

lemma roi_from_relative_size:
  assumes "roi_from_relative bb rr = Inr ro"
  shows "1 \<le> roi_width ro \<and> 1 \<le> roi_height ro"
proof -
  obtain l t r b where rr: "rr = (l, t, r, b)" by (cases rr) auto
  show ?thesis
    using assms unfolding rr
    by (auto simp add: roi_from_relative_def Let_def split: sum.splits)
qed

lemma roi_from_absolute_size: "1 \<le> roi_width (roi_from_absolute bb a) \<and> 1 \<le> roi_height (roi_from_absolute bb a)"
  by (cases a) (simp add: roi_from_absolute_def Let_def)

lemma border_clamp_size:
  "1 \<le> roi_width ro \<and> 1 \<le> roi_height ro \<Longrightarrow>
   1 \<le> roi_width (border_clamp c ro) \<and> 1 \<le> roi_height (border_clamp c ro)"
  by (simp add: border_clamp_def)

section \<open>Concrete evaluations\<close>

lemma edge_closed_form_demo:
  "edge_closed_form 100 800 (1 / 2) = 500" "edge_closed_form 50 600 (1 / 2) = 350"
  "edge_closed_form 100 800 1 = 900" "edge_closed_form 50 600 1 = 650"
  by code_simp+

lemma edge_closed_form_small: "edge_closed_form 0 3 (1 / 2) = 1" "edge_closed_form 0 3 1 = 3"
  by code_simp+

section \<open>Relative branch: the rectangle\<close>

lemma rel_demo_value:
  "roi_from_relative rel_demo_bbox (Finite (1 / 2), Finite (1 / 2), Finite 1, Finite 1) =
     Inr \<lparr> roi_left = 500, roi_top = 350, roi_width = 400, roi_height = 300 \<rparr>"
proof -
  have c: "clamp01 (Finite (1 / 2)) = Finite (1 / 2)" "clamp01 (Finite 1) = Finite 1"
    by (simp_all add: clamp01_Finite)
  have "roi_from_relative rel_demo_bbox (Finite (1 / 2), Finite (1 / 2), Finite 1, Finite 1) =
     Inr \<lparr> roi_left = edge_closed_form (bbox_left rel_demo_bbox) (bbox_width rel_demo_bbox) (min (1 / 2) 1),
           roi_top = edge_closed_form (bbox_top rel_demo_bbox) (bbox_height rel_demo_bbox) (min (1 / 2) 1),
           roi_width = max 1 (edge_closed_form (bbox_left rel_demo_bbox) (bbox_width rel_demo_bbox) (max (1 / 2) 1)
                              - edge_closed_form (bbox_left rel_demo_bbox) (bbox_width rel_demo_bbox) (min (1 / 2) 1)),
           roi_height = max 1 (edge_closed_form (bbox_top rel_demo_bbox) (bbox_height rel_demo_bbox) (max (1 / 2) 1)
                               - edge_closed_form (bbox_top rel_demo_bbox) (bbox_height rel_demo_bbox) (min (1 / 2) 1)) \<rparr>"
    by (rule roi_from_relative_bounded [OF _ _ _ _ c(1) c(1) c(2) c(2)])
       (simp_all add: rel_demo_bbox_def)
  then show ?thesis
    by (simp add: rel_demo_bbox_def edge_closed_form_demo)
qed

lemma small_value:
  "roi_from_relative small_bbox (Finite (1 / 2), Finite (1 / 2), Finite 1, Finite 1) =
     Inr \<lparr> roi_left = 1, roi_top = 1, roi_width = 2, roi_height = 2 \<rparr>"
proof -
  have c: "clamp01 (Finite (1 / 2)) = Finite (1 / 2)" "clamp01 (Finite 1) = Finite 1"
    by (simp_all add: clamp01_Finite)
  have "roi_from_relative small_bbox (Finite (1 / 2), Finite (1 / 2), Finite 1, Finite 1) =
     Inr \<lparr> roi_left = edge_closed_form (bbox_left small_bbox) (bbox_width small_bbox) (min (1 / 2) 1),
           roi_top = edge_closed_form (bbox_top small_bbox) (bbox_height small_bbox) (min (1 / 2) 1),
           roi_width = max 1 (edge_closed_form (bbox_left small_bbox) (bbox_width small_bbox) (max (1 / 2) 1)
                              - edge_closed_form (bbox_left small_bbox) (bbox_width small_bbox) (min (1 / 2) 1)),
           roi_height = max 1 (edge_closed_form (bbox_top small_bbox) (bbox_height small_bbox) (max (1 / 2) 1)
                               - edge_closed_form (bbox_top small_bbox) (bbox_height small_bbox) (min (1 / 2) 1)) \<rparr>"
    by (rule roi_from_relative_bounded [OF _ _ _ _ c(1) c(1) c(2) c(2)])
       (simp_all add: small_bbox_def)
  then show ?thesis
    by (simp add: small_bbox_def edge_closed_form_small)
qed

text \<open>
  Claim C2, as stated, fails: the edges are not the real numbers
  \<open>windowLeft + windowWidth * fraction\<close> but those values truncated to integers. On a
  3 by 3 window at the origin with fractions \<open>(0.5, 0.5, 1.0, 1.0)\<close> the left edge is 1,
  not 1.5, and the width is 2, not 1.5.
\<close>

theorem relative_branch_truncates_counterexample:
  "roi_from_relative small_bbox (Finite (1 / 2), Finite (1 / 2), Finite 1, Finite 1) =
     Inr \<lparr> roi_left = 1, roi_top = 1, roi_width = 2, roi_height = 2 \<rparr>
   \<and> rat_of_int 1 \<noteq>
       rat_of_int (bbox_left small_bbox) + rat_of_int (bbox_width small_bbox) * min (1 / 2) 1
   \<and> rat_of_int 2 \<noteq>
       max 1 ((rat_of_int (bbox_left small_bbox) + rat_of_int (bbox_width small_bbox) * max (1 / 2) 1)
              - (rat_of_int (bbox_left small_bbox) + rat_of_int (bbox_width small_bbox) * min (1 / 2) 1))"
  by (simp add: small_value) (simp add: small_bbox_def)

lemma clamp01_value: "clamp01 v = Finite (clamped_fraction v)"
  by (cases v) (simp_all add: clamped_fraction_def clamp01_Finite clamp01_special)

lemma clamped_fraction_range: "0 \<le> clamped_fraction v \<and> clamped_fraction v \<le> 1"
  by (cases v) (simp_all add: clamped_fraction_def)

text \<open>
  Claim C2, amended. For every window bounding box (coordinates and extents below
  \<open>2 ^ 53\<close> in magnitude, so that they convert to doubles exactly) and every relative
  ROI, whatever its four floats, each fraction is first clamped into \<open>[0, 1]\<close> by
  \<open>max(0.0, min(1.0, v))\<close> (\<open>clamped_fraction\<close>: a finite value is clamped, NaN and
  \<open>+inf\<close> become 1, \<open>-inf\<close> becomes 0), and \<open>_roi_from_relative\<close> returns the
  rectangle whose edges \<open>x0\<close>, \<open>x1\<close>, \<open>y0\<close>, \<open>y1\<close> are
  \<open>windowLeft + windowWidth * min(left, right)\<close>,
  \<open>windowLeft + windowWidth * max(left, right)\<close> and their analogues for top and bottom,
  each computed in double precision and truncated toward zero to an integer
  (\<open>edge_closed_form\<close>), with left \<open>x0\<close>, top \<open>y0\<close>, width \<open>max(1, x1 - x0)\<close> and height
  \<open>max(1, y1 - y0)\<close>. For the window \<open>(100, 50, 800, 600)\<close> and the fractions
  \<open>(0.5, 0.5, 1.0, 1.0)\<close> the result is \<open>(500, 350, 400, 300)\<close>.
\<close>

theorem relative_branch_rectangle:
  "(\<bar>bbox_left bb\<bar> < 2 ^ 53 \<and> \<bar>bbox_top bb\<bar> < 2 ^ 53 \<and>
    \<bar>bbox_width bb\<bar> < 2 ^ 53 \<and> \<bar>bbox_height bb\<bar> < 2 ^ 53 \<longrightarrow>
      roi_from_relative bb (l, t, r, b) =
        Inr \<lparr> roi_left = edge_closed_form (bbox_left bb) (bbox_width bb)
                           (min (clamped_fraction l) (clamped_fraction r)),
              roi_top = edge_closed_form (bbox_top bb) (bbox_height bb)
                           (min (clamped_fraction t) (clamped_fraction b)),
              roi_width = max 1
                (edge_closed_form (bbox_left bb) (bbox_width bb) (max (clamped_fraction l) (clamped_fraction r))
                 - edge_closed_form (bbox_left bb) (bbox_width bb) (min (clamped_fraction l) (clamped_fraction r))),
              roi_height = max 1
                (edge_closed_form (bbox_top bb) (bbox_height bb) (max (clamped_fraction t) (clamped_fraction b))
                 - edge_closed_form (bbox_top bb) (bbox_height bb) (min (clamped_fraction t) (clamped_fraction b))) \<rparr>)
   \<and> clamp01 v = Finite (clamped_fraction v)
   \<and> clamped_fraction (Finite q) = max 0 (min 1 q)
   \<and> clamped_fraction NaN = 1 \<and> clamped_fraction PosInf = 1 \<and> clamped_fraction NegInf = 0
   \<and> clamp01 NaN = Finite 1 \<and> clamp01 PosInf = Finite 1 \<and> clamp01 NegInf = Finite 0
   \<and> roi_from_relative
        \<lparr> bbox_title = ''DMV-Viewer'', bbox_top = 50, bbox_left = 100, bbox_width = 800, bbox_height = 600 \<rparr>
        (Finite (1 / 2), Finite (1 / 2), Finite 1, Finite 1) =
      Inr \<lparr> roi_left = 500, roi_top = 350, roi_width = 400, roi_height = 300 \<rparr>"
proof -
  have g: "\<bar>bbox_left bb\<bar> < 2 ^ 53 \<and> \<bar>bbox_top bb\<bar> < 2 ^ 53 \<and>
    \<bar>bbox_width bb\<bar> < 2 ^ 53 \<and> \<bar>bbox_height bb\<bar> < 2 ^ 53 \<longrightarrow>
      roi_from_relative bb (l, t, r, b) =
        Inr \<lparr> roi_left = edge_closed_form (bbox_left bb) (bbox_width bb)
                           (min (clamped_fraction l) (clamped_fraction r)),
              roi_top = edge_closed_form (bbox_top bb) (bbox_height bb)
                           (min (clamped_fraction t) (clamped_fraction b)),
              roi_width = max 1
                (edge_closed_form (bbox_left bb) (bbox_width bb) (max (clamped_fraction l) (clamped_fraction r))
                 - edge_closed_form (bbox_left bb) (bbox_width bb) (min (clamped_fraction l) (clamped_fraction r))),
              roi_height = max 1
                (edge_closed_form (bbox_top bb) (bbox_height bb) (max (clamped_fraction t) (clamped_fraction b))
                 - edge_closed_form (bbox_top bb) (bbox_height bb) (min (clamped_fraction t) (clamped_fraction b))) \<rparr>"
  proof (intro impI, elim conjE)
    assume a: "\<bar>bbox_left bb\<bar> < 2 ^ 53" "\<bar>bbox_top bb\<bar> < 2 ^ 53"
      "\<bar>bbox_width bb\<bar> < 2 ^ 53" "\<bar>bbox_height bb\<bar> < 2 ^ 53"
    show "roi_from_relative bb (l, t, r, b) =
        Inr \<lparr> roi_left = edge_closed_form (bbox_left bb) (bbox_width bb)
                           (min (clamped_fraction l) (clamped_fraction r)),
              roi_top = edge_closed_form (bbox_top bb) (bbox_height bb)
                           (min (clamped_fraction t) (clamped_fraction b)),
              roi_width = max 1
                (edge_closed_form (bbox_left bb) (bbox_width bb) (max (clamped_fraction l) (clamped_fraction r))
                 - edge_closed_form (bbox_left bb) (bbox_width bb) (min (clamped_fraction l) (clamped_fraction r))),
              roi_height = max 1
                (edge_closed_form (bbox_top bb) (bbox_height bb) (max (clamped_fraction t) (clamped_fraction b))
                 - edge_closed_form (bbox_top bb) (bbox_height bb) (min (clamped_fraction t) (clamped_fraction b))) \<rparr>"
      by (rule roi_from_relative_bounded [OF a clamp01_value clamp01_value clamp01_value clamp01_value])
  qed
  have c: "clamp01 v = Finite (clamped_fraction v)" by (rule clamp01_value)
  have s: "clamped_fraction (Finite q) = max 0 (min 1 q)"
    "clamped_fraction NaN = 1" "clamped_fraction PosInf = 1" "clamped_fraction NegInf = 0"
    by (simp_all add: clamped_fraction_def)
  have k: "clamp01 NaN = Finite 1" "clamp01 PosInf = Finite 1" "clamp01 NegInf = Finite 0"
    by (rule clamp01_special)+
  have e: "roi_from_relative
        \<lparr> bbox_title = ''DMV-Viewer'', bbox_top = 50, bbox_left = 100, bbox_width = 800, bbox_height = 600 \<rparr>
        (Finite (1 / 2), Finite (1 / 2), Finite 1, Finite 1) =
      Inr \<lparr> roi_left = 500, roi_top = 350, roi_width = 400, roi_height = 300 \<rparr>"
    using rel_demo_value by (simp add: rel_demo_bbox_def)
  from g c s k e show ?thesis by blast
qed

theorem relative_branch_rectangle_witness:
  "\<bar>bbox_left rel_demo_bbox\<bar> < 2 ^ 53 \<and> \<bar>bbox_top rel_demo_bbox\<bar> < 2 ^ 53 \<and>
   \<bar>bbox_width rel_demo_bbox\<bar> < 2 ^ 53 \<and> \<bar>bbox_height rel_demo_bbox\<bar> < 2 ^ 53 \<and>
   roi_from_relative rel_demo_bbox (Finite (1 / 4), Finite (- 3), NaN, PosInf) =
     Inr \<lparr> roi_left = 300, roi_top = 50, roi_width = 600, roi_height = 600 \<rparr> \<and>
   roi_from_relative rel_demo_bbox (Finite (3 / 4), NegInf, Finite (1 / 4), Finite 7) =
     Inr \<lparr> roi_left = 300, roi_top = 50, roi_width = 400, roi_height = 600 \<rparr>"
proof -
  have b: "\<bar>bbox_left rel_demo_bbox\<bar> < 2 ^ 53 \<and> \<bar>bbox_top rel_demo_bbox\<bar> < 2 ^ 53 \<and>
   \<bar>bbox_width rel_demo_bbox\<bar> < 2 ^ 53 \<and> \<bar>bbox_height rel_demo_bbox\<bar> < 2 ^ 53"
    by (simp add: rel_demo_bbox_def)
  have v: "edge_closed_form 100 800 (1 / 4) = 300" "edge_closed_form 100 800 (3 / 4) = 700"
    "edge_closed_form 100 800 1 = 900"
    "edge_closed_form 50 600 0 = 50" "edge_closed_form 50 600 1 = 650"
    by code_simp+
  have w1: "roi_from_relative rel_demo_bbox (Finite (1 / 4), Finite (- 3), NaN, PosInf) =
     Inr \<lparr> roi_left = 300, roi_top = 50, roi_width = 600, roi_height = 600 \<rparr>"
    using b relative_branch_rectangle [of rel_demo_bbox "Finite (1 / 4)" "Finite (- 3)" NaN PosInf]
    by (simp add: rel_demo_bbox_def clamped_fraction_def v)
  have w2: "roi_from_relative rel_demo_bbox (Finite (3 / 4), NegInf, Finite (1 / 4), Finite 7) =
     Inr \<lparr> roi_left = 300, roi_top = 50, roi_width = 400, roi_height = 600 \<rparr>"
    using b relative_branch_rectangle [of rel_demo_bbox "Finite (3 / 4)" NegInf "Finite (1 / 4)" "Finite 7"]
    by (simp add: rel_demo_bbox_def clamped_fraction_def v)
  from b w1 w2 show ?thesis by blast
qed

section \<open>Resolver: size invariant\<close>

lemma apply_roi_to_bbox_total:
  assumes "\<bar>bbox_left bb\<bar> < 2 ^ 53" "\<bar>bbox_top bb\<bar> < 2 ^ 53"
    "\<bar>bbox_width bb\<bar> < 2 ^ 53" "\<bar>bbox_height bb\<bar> < 2 ^ 53"
  shows "\<exists>ro. apply_roi_to_bbox cfg st bb = Inr ro"
proof (cases "effective_mode cfg st = ''absolute''")
  case True
  then show ?thesis by (simp add: apply_roi_to_bbox_def)
next
  case False
  obtain ro where "roi_from_relative bb (case ROI_RUNTIME_REL st of Some r \<Rightarrow> r | None \<Rightarrow> REL_ROI cfg) = Inr ro"
    using roi_from_relative_total [OF assms] by blast
  with False show ?thesis by (simp add: apply_roi_to_bbox_def)
qed

lemma apply_roi_to_bbox_size:
  assumes "apply_roi_to_bbox cfg st bb = Inr ro"
  shows "1 \<le> roi_width ro \<and> 1 \<le> roi_height ro"
proof (cases "effective_mode cfg st = ''absolute''")
  case True
  with assms have "ro = border_clamp (ROI_CLAMP cfg)
      (roi_from_absolute bb (case ROI_RUNTIME_ABS st of Some a \<Rightarrow> a | None \<Rightarrow> ABS_ROI cfg))"
    by (simp add: apply_roi_to_bbox_def)
  then show ?thesis
    using border_clamp_size [OF roi_from_absolute_size] by simp
next
  case False
  with assms obtain r0 where
    r0: "roi_from_relative bb (case ROI_RUNTIME_REL st of Some r \<Rightarrow> r | None \<Rightarrow> REL_ROI cfg) = Inr r0"
    and ro: "ro = border_clamp (ROI_CLAMP cfg) r0"
    by (auto simp add: apply_roi_to_bbox_def split: sum.splits)
  show ?thesis
    unfolding ro by (rule border_clamp_size [OF roi_from_relative_size [OF r0]])
qed

lemma apply_rel_demo:
  "apply_roi_to_bbox rel_demo_config initial_runtime rel_demo_bbox =
     Inr \<lparr> roi_left = 500, roi_top = 350, roi_width = 400, roi_height = 300 \<rparr>"
proof -
  have m: "effective_mode rel_demo_config initial_runtime \<noteq> ''absolute''"
    by (simp add: effective_mode_def rel_demo_config_def default_config_def initial_runtime_def
          lower_def lower_char_def)
  have r: "(case ROI_RUNTIME_REL initial_runtime of Some r \<Rightarrow> r | None \<Rightarrow> REL_ROI rel_demo_config) =
           (Finite (1 / 2), Finite (1 / 2), Finite 1, Finite 1)"
    by (simp add: initial_runtime_def rel_demo_config_def)
  have c: "ROI_CLAMP rel_demo_config = 0"
    by (simp add: rel_demo_config_def default_config_def)
  show ?thesis
    by (simp add: apply_roi_to_bbox_def m r c rel_demo_value border_clamp_def)
qed

text \<open>
  Claim C5. Whatever the window bounding box, the ROI (absolute or relative, default
  or runtime override, in or out of range) and the border clamp, every rectangle that
  \<open>_apply_roi_to_bbox\<close> returns has width and height at least 1; and it does return
  one for every window whose coordinates and extents are below \<open>2 ^ 53\<close> in magnitude.
\<close>

theorem resolver_size_at_least_one:
  "(apply_roi_to_bbox cfg st bb = Inr ro \<longrightarrow> 1 \<le> roi_width ro \<and> 1 \<le> roi_height ro)
   \<and> (\<bar>bbox_left bb\<bar> < 2 ^ 53 \<and> \<bar>bbox_top bb\<bar> < 2 ^ 53 \<and>
      \<bar>bbox_width bb\<bar> < 2 ^ 53 \<and> \<bar>bbox_height bb\<bar> < 2 ^ 53 \<longrightarrow>
        (\<exists>ro'. apply_roi_to_bbox cfg st bb = Inr ro'))"
  using apply_roi_to_bbox_size [of cfg st bb ro] apply_roi_to_bbox_total [of bb cfg st]
  by blast

theorem resolver_size_at_least_one_witness:
  "apply_roi_to_bbox rel_demo_config initial_runtime rel_demo_bbox =
     Inr \<lparr> roi_left = 500, roi_top = 350, roi_width = 400, roi_height = 300 \<rparr>
   \<and> (1::int) \<le> roi_width \<lparr> roi_left = 500, roi_top = 350, roi_width = 400, roi_height = (300::int) \<rparr>
   \<and> (1::int) \<le> roi_height \<lparr> roi_left = 500, roi_top = 350, roi_width = 400, roi_height = (300::int) \<rparr>
   \<and> \<bar>bbox_left rel_demo_bbox\<bar> < 2 ^ 53 \<and> \<bar>bbox_top rel_demo_bbox\<bar> < 2 ^ 53
   \<and> \<bar>bbox_width rel_demo_bbox\<bar> < 2 ^ 53 \<and> \<bar>bbox_height rel_demo_bbox\<bar> < 2 ^ 53
   \<and> (\<exists>ro'. apply_roi_to_bbox rel_demo_config initial_runtime rel_demo_bbox = Inr ro')"
  using apply_rel_demo
    resolver_size_at_least_one [of rel_demo_config initial_runtime rel_demo_bbox
      "\<lparr> roi_left = 500, roi_top = 350, roi_width = 400, roi_height = 300 \<rparr>"]
  by (simp add: rel_demo_bbox_def)

section \<open>Mode selection\<close>

text \<open>
  Claim C10. The mode \<open>_apply_roi_to_bbox\<close> acts on is the runtime-override mode when
  set (neither \<open>None\<close> nor empty), otherwise the compiled default \<open>ROI_MODE\<close>,
  lowercased. The absolute branch is taken exactly when that string is \<open>"absolute"\<close>;
  for every other string the result is that of the relative branch, followed by the
  border clamp: no error is raised for an unknown mode, and for a window whose
  coordinates and extents are below \<open>2 ^ 53\<close> in magnitude a rectangle is returned.
\<close>

theorem mode_selects_branch:
  "(ROI_MODE cfg \<noteq> [] \<longrightarrow> effective_mode cfg st = spec_mode cfg st)
   \<and> (effective_mode cfg st = ''absolute'') = (spec_mode cfg st = ''absolute'')
   \<and> (spec_mode cfg st = ''absolute'' \<longrightarrow>
        apply_roi_to_bbox cfg st b =
          Inr (border_clamp (ROI_CLAMP cfg)
                 (roi_from_absolute b (case ROI_RUNTIME_ABS st of Some a \<Rightarrow> a | None \<Rightarrow> ABS_ROI cfg))))
   \<and> (spec_mode cfg st \<noteq> ''absolute'' \<longrightarrow>
        apply_roi_to_bbox cfg st b =
          map_sum id (border_clamp (ROI_CLAMP cfg))
            (roi_from_relative b (case ROI_RUNTIME_REL st of Some r \<Rightarrow> r | None \<Rightarrow> REL_ROI cfg)))
   \<and> (spec_mode cfg st \<noteq> ''absolute'' \<and>
      \<bar>bbox_left b\<bar> < 2 ^ 53 \<and> \<bar>bbox_top b\<bar> < 2 ^ 53 \<and>
      \<bar>bbox_width b\<bar> < 2 ^ 53 \<and> \<bar>bbox_height b\<bar> < 2 ^ 53 \<longrightarrow>
        (\<exists>ro. apply_roi_to_bbox cfg st b = Inr ro))"
proof -
  have rel: "lower ''relative'' \<noteq> ''absolute''"
    by (simp add: lower_def lower_char_def)
  have m1: "ROI_MODE cfg \<noteq> [] \<longrightarrow> effective_mode cfg st = spec_mode cfg st"
    by (simp add: effective_mode_def spec_mode_def split: option.splits)
  have m2: "(effective_mode cfg st = ''absolute'') = (spec_mode cfg st = ''absolute'')"
  proof (cases "ROI_MODE cfg = []")
    case True
    then show ?thesis
      using rel by (simp add: effective_mode_def spec_mode_def lower_Nil split: option.splits)
  next
    case False
    then show ?thesis using m1 by simp
  qed
  have m3: "spec_mode cfg st = ''absolute'' \<longrightarrow>
        apply_roi_to_bbox cfg st b =
          Inr (border_clamp (ROI_CLAMP cfg)
                 (roi_from_absolute b (case ROI_RUNTIME_ABS st of Some a \<Rightarrow> a | None \<Rightarrow> ABS_ROI cfg)))"
    using m2 by (simp add: apply_roi_to_bbox_def)
  have m4: "spec_mode cfg st \<noteq> ''absolute'' \<longrightarrow>
        apply_roi_to_bbox cfg st b =
          map_sum id (border_clamp (ROI_CLAMP cfg))
            (roi_from_relative b (case ROI_RUNTIME_REL st of Some r \<Rightarrow> r | None \<Rightarrow> REL_ROI cfg))"
    using m2 by (simp add: apply_roi_to_bbox_def split: sum.splits)
  have m5: "spec_mode cfg st \<noteq> ''absolute'' \<and>
      \<bar>bbox_left b\<bar> < 2 ^ 53 \<and> \<bar>bbox_top b\<bar> < 2 ^ 53 \<and>
      \<bar>bbox_width b\<bar> < 2 ^ 53 \<and> \<bar>bbox_height b\<bar> < 2 ^ 53 \<longrightarrow>
        (\<exists>ro. apply_roi_to_bbox cfg st b = Inr ro)"
    using apply_roi_to_bbox_total [of b cfg st] by blast
  from m1 m2 m3 m4 m5 show ?thesis by blast
qed

lemma spec_mode_bogus: "spec_mode rel_demo_config bogus_runtime = ''bogus''"
  by (simp add: spec_mode_def bogus_runtime_def lower_def lower_char_def)

lemma spec_mode_clamp_demo: "spec_mode (clamp_demo_config 3) initial_runtime = ''absolute''"
  by (simp add: spec_mode_def clamp_demo_config_def default_config_def initial_runtime_def
        lower_def lower_char_def)

theorem mode_selects_branch_witness:
  "ROI_MODE rel_demo_config \<noteq> []
   \<and> effective_mode rel_demo_config bogus_runtime = ''bogus''
   \<and> spec_mode rel_demo_config bogus_runtime \<noteq> ''absolute''
   \<and> \<bar>bbox_left rel_demo_bbox\<bar> < 2 ^ 53 \<and> \<bar>bbox_top rel_demo_bbox\<bar> < 2 ^ 53
   \<and> \<bar>bbox_width rel_demo_bbox\<bar> < 2 ^ 53 \<and> \<bar>bbox_height rel_demo_bbox\<bar> < 2 ^ 53
   \<and> apply_roi_to_bbox rel_demo_config bogus_runtime rel_demo_bbox =
       Inr \<lparr> roi_left = 500, roi_top = 350, roi_width = 400, roi_height = 300 \<rparr>
   \<and> spec_mode (clamp_demo_config 3) initial_runtime = ''absolute''
   \<and> apply_roi_to_bbox (clamp_demo_config 3) initial_runtime clamp_demo_bbox =
       Inr \<lparr> roi_left = 3, roi_top = 3, roi_width = 4, roi_height = 4 \<rparr>"
proof -
  have n: "ROI_MODE rel_demo_config \<noteq> []"
    by (simp add: rel_demo_config_def default_config_def)
  have r: "(case ROI_RUNTIME_REL bogus_runtime of Some r \<Rightarrow> r | None \<Rightarrow> REL_ROI rel_demo_config) =
           (Finite (1 / 2), Finite (1 / 2), Finite 1, Finite 1)"
    by (simp add: bogus_runtime_def rel_demo_config_def)
  have c: "ROI_CLAMP rel_demo_config = 0"
    by (simp add: rel_demo_config_def default_config_def)
  have a: "(case ROI_RUNTIME_ABS initial_runtime of Some a \<Rightarrow> a | None \<Rightarrow> ABS_ROI (clamp_demo_config 3)) =
           (0, 0, 10, 10)" "ROI_CLAMP (clamp_demo_config 3) = 3"
    by (simp_all add: initial_runtime_def clamp_demo_config_def)
  have b: "\<bar>bbox_left rel_demo_bbox\<bar> < 2 ^ 53 \<and> \<bar>bbox_top rel_demo_bbox\<bar> < 2 ^ 53
   \<and> \<bar>bbox_width rel_demo_bbox\<bar> < 2 ^ 53 \<and> \<bar>bbox_height rel_demo_bbox\<bar> < 2 ^ 53"
    by (simp add: rel_demo_bbox_def)
  show ?thesis
    using n b mode_selects_branch [of rel_demo_config bogus_runtime rel_demo_bbox]
      mode_selects_branch [of "clamp_demo_config 3" initial_runtime clamp_demo_bbox]
    by (simp add: spec_mode_bogus spec_mode_clamp_demo r c a rel_demo_value border_clamp_def
          roi_from_absolute_def clamp_demo_bbox_def)
qed

section \<open>Runtime setter and health check\<close>

lemma set_roi_abs_demo:
  "set_roi demo_float_of_str demo_format_6f abs_demo_args initial_runtime =
     (Inr (\<lparr> ok = True, message = ''Applied ABS_ROI=(10,20,1,1)'' \<rparr>, 200), abs_demo_runtime)"
proof -
  have x: "int_float demo_float_of_str (ArgStr ''10'') = Inr 10"
    by (simp add: int_float_def demo_float_of_str_def trunc_rat_def)
  have y: "int_float demo_float_of_str (ArgStr ''20'') = Inr 20"
    by (simp add: int_float_def demo_float_of_str_def trunc_rat_def)
  show ?thesis
    by (simp add: set_roi_def abs_demo_args_def lower_def lower_char_def args_get_def
          x y int_float_default_one str_int_def digit_char_def abs_demo_runtime_def)
qed

lemma set_roi_rel_demo:
  "set_roi demo_float_of_str demo_format_6f rel_demo_args abs_demo_runtime =
     (Inr (\<lparr> ok = True, message = ''Applied REL_ROI=(0.500000,0.500000,1.000000,1.000000)'' \<rparr>, 200),
      rel_demo_runtime)"
  by (simp add: set_roi_def rel_demo_args_def lower_def lower_char_def args_get_def
        demo_float_of_str_def float_of_int_one demo_format_6f_def rel_demo_runtime_def)

lemma find_one_window:
  "find_window_bbox default_config one_window =
     Inr \<lparr> bbox_title = ''DMV-Viewer'', bbox_top = 50, bbox_left = 100, bbox_width = 800,
           bbox_height = 600 \<rparr>"
  by (simp add: find_window_bbox_def default_config_def one_window_def)

text \<open>
  Claim C6, as stated, fails in its last part: after a successful
  \<open>/set_roi?mode=absolute\<close>, \<open>/health\<close> reports neither the mode nor the override when
  the window lookup fails; it answers with the error and the window title only.
\<close>

theorem health_after_set_roi_counterexample:
  "set_roi demo_float_of_str demo_format_6f abs_demo_args initial_runtime =
     (Inr (\<lparr> ok = True, message = ''Applied ABS_ROI=(10,20,1,1)'' \<rparr>, 200), abs_demo_runtime)
   \<and> health default_config no_windows abs_demo_runtime =
       (HealthError (''Window '' @ [CHR 39] @ ''DMV-Viewer'' @ [CHR 39] @ '' not found'') ''DMV-Viewer'', 200)"
  by (simp add: set_roi_abs_demo)
     (simp add: health_def find_window_bbox_def no_windows_def default_config_def)

lemma health_lookup_fails:
  "find_window_bbox cfg gw = Inl e \<Longrightarrow>
   health cfg gw s = (HealthError (str_of_error e) (WINDOW_TITLE cfg), 200)"
  by (simp add: health_def)

lemma health_resolver_fails:
  "find_window_bbox cfg gw = Inr bw \<Longrightarrow> apply_roi_to_bbox cfg s bw = Inl e \<Longrightarrow>
   health cfg gw s = (HealthError (str_of_error e) (WINDOW_TITLE cfg), 200)"
  by (simp add: health_def)

lemma find_no_window:
  "find_window_bbox default_config no_windows =
     Inl (ValueError (''Window '' @ [CHR 39] @ ''DMV-Viewer'' @ [CHR 39] @ '' not found''))"
  by (simp add: find_window_bbox_def no_windows_def default_config_def)

lemma round_ne_huge: "round_ne (2 powi 1024) = 2 powi 1024"
proof -
  define q :: rat where "q = 2 powi 1024"
  have qpos: "0 < q" by (simp add: q_def)
  have aq: "\<bar>q\<bar> = q" using qpos by simp
  have "q < 2 powi 1025" unfolding q_def by (intro power_int_strict_increasing) simp_all
  with qpos have fl: "floor_log2 \<bar>q\<bar> < 1025" using floor_log2_less [of "\<bar>q\<bar>" 1025] aq by simp
  define e where "e = max (floor_log2 \<bar>q\<bar> - 52) (- 1074)"
  have e: "e \<le> 1024" using fl by (simp add: e_def)
  define k where "k = nat (1024 - e)"
  have ek: "1024 - e = int k" using e by (simp add: k_def)
  have "q / 2 powi e = 2 powi (1024 - e)"
    unfolding q_def by (simp only: power_int_diff [of "2::rat", simplified])
  also have "\<dots> = 2 ^ k" by (simp only: ek power_int_of_nat)
  also have "\<dots> = of_int (2 ^ k)" by simp
  finally have d: "q / 2 powi e = of_int (2 ^ k)" .
  have "round_half_even (q / 2 powi e) = 2 ^ k"
    by (simp only: d round_half_even_of_int)
  then have "of_int (round_half_even (q / 2 powi e)) * (2::rat) powi e = of_int (2 ^ k) * 2 powi e"
    by simp
  also have "\<dots> = (q / 2 powi e) * 2 powi e" by (simp only: d)
  also have "\<dots> = q" by simp
  finally have r: "of_int (round_half_even (q / 2 powi e)) * (2::rat) powi e = q" .
  have "round_ne q = q"
    using qpos r by (simp add: round_ne_def e_def Let_def)
  then show ?thesis by (simp only: q_def)
qed

lemma float_of_int_huge:
  "float_of_int huge = Inl (OverflowError ''int too large to convert to float'')"
proof -
  have p: "(2::rat) powi 1024 = 2 ^ 1024" by (rule power_int_numeral)
  have r: "round_ne (2 ^ 1024) = 2 ^ 1024" using round_ne_huge by (simp only: p)
  have f: "fl_round (2 ^ 1024) = PosInf"
    unfolding fl_round_def Let_def r by (simp only: order_refl if_True)
  have h: "(of_int huge :: rat) = 2 ^ 1024"
    unfolding huge_def by (simp only: of_int_power of_int_numeral)
  show ?thesis unfolding float_of_int_def h f by simp
qed

lemma find_huge_window:
  "find_window_bbox default_config huge_window =
     Inr \<lparr> bbox_title = ''DMV-Viewer'', bbox_top = 0, bbox_left = 0, bbox_width = huge,
           bbox_height = 600 \<rparr>"
  by (simp add: find_window_bbox_def default_config_def huge_window_def)

lemma resolver_huge_window:
  "apply_roi_to_bbox default_config rel_demo_runtime
     \<lparr> bbox_title = ''DMV-Viewer'', bbox_top = 0, bbox_left = 0, bbox_width = huge,
       bbox_height = 600 \<rparr> =
   Inl (OverflowError ''int too large to convert to float'')"
  by (simp add: apply_roi_to_bbox_def effective_mode_def rel_demo_runtime_def lower_def lower_char_def
        roi_from_relative_def edge_def float_of_int_huge)

text \<open>
  Claim C6, amended. In every state reached from the initial one by any sequence of
  \<open>/set_roi\<close> requests, the absolute and the relative runtime override are never both
  set. A successful \<open>/set_roi\<close> with mode absolute answers 200, stores the parsed
  \<open>(x, y, w, h)\<close> as the absolute override and clears the relative one; with mode
  relative it answers 200, stores the parsed \<open>(l, t, r, b)\<close> as the relative override and
  clears the absolute one. Afterwards, whenever the window lookup succeeds (and, in
  relative mode, the resolver returns a rectangle), \<open>/health\<close> reports that mode and
  exactly those override values. In whatever state, when the window lookup or the
  resolver fails with an error \<open>e\<close>, \<open>/health\<close> reports only \<open>str(e)\<close> and the
  window title, with status 200.
\<close>

theorem set_roi_overrides_exclusive:
  "(ROI_RUNTIME_ABS (set_roi_seq f g reqs initial_runtime) = None
      \<or> ROI_RUNTIME_REL (set_roi_seq f g reqs initial_runtime) = None)
   \<and> (lower (case args ''mode'' of Some m \<Rightarrow> m | None \<Rightarrow> []) = ''absolute'' \<and>
      set_roi f g args st = (Inr rep, st') \<longrightarrow>
        snd rep = 200 \<and>
        (\<exists>x y w h.
           int_float f (args_get args ''x'' 0) = Inr x \<and> int_float f (args_get args ''y'' 0) = Inr y \<and>
           int_float f (args_get args ''w'' 1) = Inr w \<and> int_float f (args_get args ''h'' 1) = Inr h \<and>
           st' = \<lparr> ROI_RUNTIME_MODE = Some ''absolute'', ROI_RUNTIME_ABS = Some (x, y, w, h),
                   ROI_RUNTIME_REL = None \<rparr> \<and>
           (\<forall>cfg gw bw. find_window_bbox cfg gw = Inr bw \<longrightarrow>
              health cfg gw st' =
                (HealthOk (bbox_title bw) (bbox_left bw, bbox_top bw, bbox_width bw, bbox_height bw)
                   (border_clamp (ROI_CLAMP cfg) (roi_from_absolute bw (x, y, w, h)))
                   ''absolute'' (Some (x, y, w, h)) None, 200))))
   \<and> (lower (case args ''mode'' of Some m \<Rightarrow> m | None \<Rightarrow> []) = ''relative'' \<and>
      set_roi f g args st = (Inr rep, st') \<longrightarrow>
        snd rep = 200 \<and>
        (\<exists>l t r b.
           py_float f (args_get args ''l'' 0) = Inr l \<and> py_float f (args_get args ''t'' 0) = Inr t \<and>
           py_float f (args_get args ''r'' 1) = Inr r \<and> py_float f (args_get args ''b'' 1) = Inr b \<and>
           st' = \<lparr> ROI_RUNTIME_MODE = Some ''relative'', ROI_RUNTIME_ABS = None,
                   ROI_RUNTIME_REL = Some (l, t, r, b) \<rparr> \<and>
           (\<forall>cfg gw bw ro. find_window_bbox cfg gw = Inr bw \<and> roi_from_relative bw (l, t, r, b) = Inr ro \<longrightarrow>
              health cfg gw st' =
                (HealthOk (bbox_title bw) (bbox_left bw, bbox_top bw, bbox_width bw, bbox_height bw)
                   (border_clamp (ROI_CLAMP cfg) ro)
                   ''relative'' None (Some (l, t, r, b)), 200))))
   \<and> (\<forall>cfg gw s e. find_window_bbox cfg gw = Inl e \<longrightarrow>
         health cfg gw s = (HealthError (str_of_error e) (WINDOW_TITLE cfg), 200))
   \<and> (\<forall>cfg gw s bw e. find_window_bbox cfg gw = Inr bw \<and> apply_roi_to_bbox cfg s bw = Inl e \<longrightarrow>
         health cfg gw s = (HealthError (str_of_error e) (WINDOW_TITLE cfg), 200))"
proof -
  have inv: "ROI_RUNTIME_ABS (set_roi_seq f g reqs initial_runtime) = None
      \<or> ROI_RUNTIME_REL (set_roi_seq f g reqs initial_runtime) = None"
    by (rule set_roi_seq_exclusive) (simp add: initial_runtime_def)
  have ab: "lower (case args ''mode'' of Some m \<Rightarrow> m | None \<Rightarrow> []) = ''absolute'' \<and>
      set_roi f g args st = (Inr rep, st') \<longrightarrow>
        snd rep = 200 \<and>
        (\<exists>x y w h.
           int_float f (args_get args ''x'' 0) = Inr x \<and> int_float f (args_get args ''y'' 0) = Inr y \<and>
           int_float f (args_get args ''w'' 1) = Inr w \<and> int_float f (args_get args ''h'' 1) = Inr h \<and>
           st' = \<lparr> ROI_RUNTIME_MODE = Some ''absolute'', ROI_RUNTIME_ABS = Some (x, y, w, h),
                   ROI_RUNTIME_REL = None \<rparr> \<and>
           (\<forall>cfg gw bw. find_window_bbox cfg gw = Inr bw \<longrightarrow>
              health cfg gw st' =
                (HealthOk (bbox_title bw) (bbox_left bw, bbox_top bw, bbox_width bw, bbox_height bw)
                   (border_clamp (ROI_CLAMP cfg) (roi_from_absolute bw (x, y, w, h)))
                   ''absolute'' (Some (x, y, w, h)) None, 200)))"
  proof (intro impI, elim conjE)
    assume m: "lower (case args ''mode'' of Some m \<Rightarrow> m | None \<Rightarrow> []) = ''absolute''"
      and s: "set_roi f g args st = (Inr rep, st')"
    from set_roi_absolute_success [OF m s] obtain x y w h where
      p: "int_float f (args_get args ''x'' 0) = Inr x" "int_float f (args_get args ''y'' 0) = Inr y"
         "int_float f (args_get args ''w'' 1) = Inr w" "int_float f (args_get args ''h'' 1) = Inr h"
      and c: "snd rep = 200"
      and e: "st' = \<lparr> ROI_RUNTIME_MODE = Some ''absolute'', ROI_RUNTIME_ABS = Some (x, y, w, h),
                      ROI_RUNTIME_REL = None \<rparr>"
      by blast
    have "\<forall>cfg gw bw. find_window_bbox cfg gw = Inr bw \<longrightarrow>
              health cfg gw st' =
                (HealthOk (bbox_title bw) (bbox_left bw, bbox_top bw, bbox_width bw, bbox_height bw)
                   (border_clamp (ROI_CLAMP cfg) (roi_from_absolute bw (x, y, w, h)))
                   ''absolute'' (Some (x, y, w, h)) None, 200)"
      using health_absolute_ok [OF _ e] by blast
    with p c e show "snd rep = 200 \<and>
        (\<exists>x y w h.
           int_float f (args_get args ''x'' 0) = Inr x \<and> int_float f (args_get args ''y'' 0) = Inr y \<and>
           int_float f (args_get args ''w'' 1) = Inr w \<and> int_float f (args_get args ''h'' 1) = Inr h \<and>
           st' = \<lparr> ROI_RUNTIME_MODE = Some ''absolute'', ROI_RUNTIME_ABS = Some (x, y, w, h),
                   ROI_RUNTIME_REL = None \<rparr> \<and>
           (\<forall>cfg gw bw. find_window_bbox cfg gw = Inr bw \<longrightarrow>
              health cfg gw st' =
                (HealthOk (bbox_title bw) (bbox_left bw, bbox_top bw, bbox_width bw, bbox_height bw)
                   (border_clamp (ROI_CLAMP cfg) (roi_from_absolute bw (x, y, w, h)))
                   ''absolute'' (Some (x, y, w, h)) None, 200)))"
      by blast
  qed
  have re: "lower (case args ''mode'' of Some m \<Rightarrow> m | None \<Rightarrow> []) = ''relative'' \<and>
      set_roi f g args st = (Inr rep, st') \<longrightarrow>
        snd rep = 200 \<and>
        (\<exists>l t r b.
           py_float f (args_get args ''l'' 0) = Inr l \<and> py_float f (args_get args ''t'' 0) = Inr t \<and>
           py_float f (args_get args ''r'' 1) = Inr r \<and> py_float f (args_get args ''b'' 1) = Inr b \<and>
           st' = \<lparr> ROI_RUNTIME_MODE = Some ''relative'', ROI_RUNTIME_ABS = None,
                   ROI_RUNTIME_REL = Some (l, t, r, b) \<rparr> \<and>
           (\<forall>cfg gw bw ro. find_window_bbox cfg gw = Inr bw \<and> roi_from_relative bw (l, t, r, b) = Inr ro \<longrightarrow>
              health cfg gw st' =
                (HealthOk (bbox_title bw) (bbox_left bw, bbox_top bw, bbox_width bw, bbox_height bw)
                   (border_clamp (ROI_CLAMP cfg) ro)
                   ''relative'' None (Some (l, t, r, b)), 200)))"
  proof (intro impI, elim conjE)
    assume m: "lower (case args ''mode'' of Some m \<Rightarrow> m | None \<Rightarrow> []) = ''relative''"
      and s: "set_roi f g args st = (Inr rep, st')"
    from set_roi_relative_success [OF m s] obtain l t r b where
      p: "py_float f (args_get args ''l'' 0) = Inr l" "py_float f (args_get args ''t'' 0) = Inr t"
         "py_float f (args_get args ''r'' 1) = Inr r" "py_float f (args_get args ''b'' 1) = Inr b"
      and c: "snd rep = 200"
      and e: "st' = \<lparr> ROI_RUNTIME_MODE = Some ''relative'', ROI_RUNTIME_ABS = None,
                      ROI_RUNTIME_REL = Some (l, t, r, b) \<rparr>"
      by blast
    have "\<forall>cfg gw bw ro. find_window_bbox cfg gw = Inr bw \<and> roi_from_relative bw (l, t, r, b) = Inr ro \<longrightarrow>
              health cfg gw st' =
                (HealthOk (bbox_title bw) (bbox_left bw, bbox_top bw, bbox_width bw, bbox_height bw)
                   (border_clamp (ROI_CLAMP cfg) ro)
                   ''relative'' None (Some (l, t, r, b)), 200)"
      using health_relative_ok [OF _ e] by blast
    with p c e show "snd rep = 200 \<and>
        (\<exists>l t r b.
           py_float f (args_get args ''l'' 0) = Inr l \<and> py_float f (args_get args ''t'' 0) = Inr t \<and>
           py_float f (args_get args ''r'' 1) = Inr r \<and> py_float f (args_get args ''b'' 1) = Inr b \<and>
           st' = \<lparr> ROI_RUNTIME_MODE = Some ''relative'', ROI_RUNTIME_ABS = None,
                   ROI_RUNTIME_REL = Some (l, t, r, b) \<rparr> \<and>
           (\<forall>cfg gw bw ro. find_window_bbox cfg gw = Inr bw \<and> roi_from_relative bw (l, t, r, b) = Inr ro \<longrightarrow>
              health cfg gw st' =
                (HealthOk (bbox_title bw) (bbox_left bw, bbox_top bw, bbox_width bw, bbox_height bw)
                   (border_clamp (ROI_CLAMP cfg) ro)
                   ''relative'' None (Some (l, t, r, b)), 200)))"
      by blast
  qed
  have hf: "\<forall>cfg gw s e. find_window_bbox cfg gw = Inl e \<longrightarrow>
         health cfg gw s = (HealthError (str_of_error e) (WINDOW_TITLE cfg), 200)"
    using health_lookup_fails by blast
  have rf: "\<forall>cfg gw s bw e. find_window_bbox cfg gw = Inr bw \<and> apply_roi_to_bbox cfg s bw = Inl e \<longrightarrow>
         health cfg gw s = (HealthError (str_of_error e) (WINDOW_TITLE cfg), 200)"
    using health_resolver_fails by blast
  from inv ab re hf rf show ?thesis by blast
qed

theorem set_roi_overrides_exclusive_witness:
  "lower (case abs_demo_args ''mode'' of Some m \<Rightarrow> m | None \<Rightarrow> []) = ''absolute''
   \<and> set_roi demo_float_of_str demo_format_6f abs_demo_args initial_runtime =
       (Inr (\<lparr> ok = True, message = ''Applied ABS_ROI=(10,20,1,1)'' \<rparr>, 200), abs_demo_runtime)
   \<and> find_window_bbox default_config one_window =
       Inr \<lparr> bbox_title = ''DMV-Viewer'', bbox_top = 50, bbox_left = 100, bbox_width = 800,
             bbox_height = 600 \<rparr>
   \<and> health default_config one_window abs_demo_runtime =
       (HealthOk ''DMV-Viewer'' (100, 50, 800, 600)
          \<lparr> roi_left = 110, roi_top = 70, roi_width = 1, roi_height = 1 \<rparr>
          ''absolute'' (Some (10, 20, 1, 1)) None, 200)
   \<and> lower (case rel_demo_args ''mode'' of Some m \<Rightarrow> m | None \<Rightarrow> []) = ''relative''
   \<and> set_roi demo_float_of_str demo_format_6f rel_demo_args abs_demo_runtime =
       (Inr (\<lparr> ok = True, message = ''Applied REL_ROI=(0.500000,0.500000,1.000000,1.000000)'' \<rparr>, 200),
        rel_demo_runtime)
   \<and> ROI_RUNTIME_ABS rel_demo_runtime = None
   \<and> health default_config one_window rel_demo_runtime =
       (HealthOk ''DMV-Viewer'' (100, 50, 800, 600)
          \<lparr> roi_left = 500, roi_top = 350, roi_width = 400, roi_height = 300 \<rparr>
          ''relative'' None (Some (Finite (1 / 2), Finite (1 / 2), Finite 1, Finite 1)), 200)
   \<and> find_window_bbox default_config no_windows =
       Inl (ValueError (''Window '' @ [CHR 39] @ ''DMV-Viewer'' @ [CHR 39] @ '' not found''))
   \<and> health default_config no_windows rel_demo_runtime =
       (HealthError (''Window '' @ [CHR 39] @ ''DMV-Viewer'' @ [CHR 39] @ '' not found'') ''DMV-Viewer'', 200)
   \<and> find_window_bbox default_config huge_window =
       Inr \<lparr> bbox_title = ''DMV-Viewer'', bbox_top = 0, bbox_left = 0, bbox_width = huge,
             bbox_height = 600 \<rparr>
   \<and> apply_roi_to_bbox default_config rel_demo_runtime
         \<lparr> bbox_title = ''DMV-Viewer'', bbox_top = 0, bbox_left = 0, bbox_width = huge,
           bbox_height = 600 \<rparr> =
       Inl (OverflowError ''int too large to convert to float'')
   \<and> health default_config huge_window rel_demo_runtime =
       (HealthError ''int too large to convert to float'' ''DMV-Viewer'', 200)"
proof -
  have ma: "lower (case abs_demo_args ''mode'' of Some m \<Rightarrow> m | None \<Rightarrow> []) = ''absolute''"
    by (simp add: abs_demo_args_def lower_def lower_char_def)
  have mr: "lower (case rel_demo_args ''mode'' of Some m \<Rightarrow> m | None \<Rightarrow> []) = ''relative''"
    by (simp add: rel_demo_args_def lower_def lower_char_def)
  have na: "ROI_RUNTIME_ABS rel_demo_runtime = None"
    by (simp add: rel_demo_runtime_def)
  have ha: "health default_config one_window abs_demo_runtime =
       (HealthOk ''DMV-Viewer'' (100, 50, 800, 600)
          \<lparr> roi_left = 110, roi_top = 70, roi_width = 1, roi_height = 1 \<rparr>
          ''absolute'' (Some (10, 20, 1, 1)) None, 200)"
    using set_roi_overrides_exclusive [of demo_float_of_str demo_format_6f "[]" abs_demo_args
        initial_runtime "(\<lparr> ok = True, message = ''Applied ABS_ROI=(10,20,1,1)'' \<rparr>, 200)"
        abs_demo_runtime]
      ma set_roi_abs_demo find_one_window
    by (auto simp add: abs_demo_runtime_def border_clamp_def roi_from_absolute_def default_config_def)
  have hr: "health default_config one_window rel_demo_runtime =
       (HealthOk ''DMV-Viewer'' (100, 50, 800, 600)
          \<lparr> roi_left = 500, roi_top = 350, roi_width = 400, roi_height = 300 \<rparr>
          ''relative'' None (Some (Finite (1 / 2), Finite (1 / 2), Finite 1, Finite 1)), 200)"
    using set_roi_overrides_exclusive [of demo_float_of_str demo_format_6f "[]" rel_demo_args
        abs_demo_runtime
        "(\<lparr> ok = True, message = ''Applied REL_ROI=(0.500000,0.500000,1.000000,1.000000)'' \<rparr>, 200)"
        rel_demo_runtime]
      mr set_roi_rel_demo find_one_window rel_demo_value
    by (auto simp add: rel_demo_runtime_def rel_demo_bbox_def border_clamp_def default_config_def)
  have hn: "health default_config no_windows rel_demo_runtime =
       (HealthError (''Window '' @ [CHR 39] @ ''DMV-Viewer'' @ [CHR 39] @ '' not found'') ''DMV-Viewer'', 200)"
    using set_roi_overrides_exclusive [of demo_float_of_str demo_format_6f "[]" rel_demo_args
        abs_demo_runtime
        "(\<lparr> ok = True, message = ''Applied REL_ROI=(0.500000,0.500000,1.000000,1.000000)'' \<rparr>, 200)"
        rel_demo_runtime]
      find_no_window
    by (auto simp add: default_config_def)
  have hx: "health default_config huge_window rel_demo_runtime =
       (HealthError ''int too large to convert to float'' ''DMV-Viewer'', 200)"
  proof -
    have "\<forall>cfg gw s bw e. find_window_bbox cfg gw = Inr bw \<and> apply_roi_to_bbox cfg s bw = Inl e \<longrightarrow>
         health cfg gw s = (HealthError (str_of_error e) (WINDOW_TITLE cfg), 200)"
      using set_roi_overrides_exclusive [of demo_float_of_str demo_format_6f "[]" rel_demo_args
        abs_demo_runtime
        "(\<lparr> ok = True, message = ''Applied REL_ROI=(0.500000,0.500000,1.000000,1.000000)'' \<rparr>, 200)"
        rel_demo_runtime]
      by blast
    with find_huge_window resolver_huge_window
    have "health default_config huge_window rel_demo_runtime =
       (HealthError (str_of_error (OverflowError ''int too large to convert to float''))
          (WINDOW_TITLE default_config), 200)"
      by blast
    then show ?thesis by (simp add: default_config_def)
  qed
  from ma mr na ha hr hn hx set_roi_abs_demo set_roi_rel_demo find_one_window find_no_window
    find_huge_window resolver_huge_window
  show ?thesis by blast
qed
end
